theory Spec2Isabelle
  imports Main
begin

section \<open>Python numbers as the analyzer uses them\<close>

text \<open>
  The analyzer reads every number out of an XML attribute with Python's \<open>float(...)\<close>,
  divides and multiplies floats, truncates them with \<open>int(...)\<close> and divides two
  integers with \<open>/\<close>.  Python integers are unbounded (\<open>int\<close>); a Python float is an
  IEEE 754 binary64 value.  A finite float is kept as sign, mantissa and exponent in its
  canonical form (\<open>mantissa * 2 ^ exponent\<close> with \<open>exponent \<ge> -1074\<close>, and
  \<open>2 ^ 52 \<le> mantissa < 2 ^ 53\<close> unless the exponent is \<open>-1074\<close>), so that two floats
  are the same bit pattern exactly when the two values of this type are equal (of a NaN
  neither sign nor payload is kept; the analyzer cannot observe them).  Every arithmetic
  result is rounded to the nearest float, ties to even, as the hardware does.
\<close>

datatype py_error = ValueError | OverflowError | ZeroDivisionError | UnicodeEncodeError

datatype pyfloat =
    PyFin bool int int  \<comment> \<open>negative?, mantissa, exponent\<close>
  | PyInf bool          \<comment> \<open>negative?\<close>
  | PyNaN

function bit_length :: "int \<Rightarrow> int" where
  "bit_length n = (if n \<le> 0 then 0 else 1 + bit_length (n div 2))"
  by pat_completeness auto
termination
  by (relation "measure nat") auto

declare bit_length.simps [simp del]

definition round_half_even :: "int \<Rightarrow> int \<Rightarrow> int" where
  \<comment> \<open>the integer nearest to \<open>n / d\<close> for \<open>0 \<le> n\<close> and \<open>0 < d\<close>, a tie going to the even one\<close>
  "round_half_even n d =
     (let q = n div d; r = n mod d
      in if 2 * r < d then q
         else if d < 2 * r then q + 1
         else if even q then q else q + 1)"

definition floor_log2 :: "int \<Rightarrow> int \<Rightarrow> int" where
  \<comment> \<open>\<open>\<lfloor>log\<^sub>2 (n / d)\<rfloor>\<close> for \<open>0 < n\<close> and \<open>0 < d\<close>\<close>
  "floor_log2 n d =
     (let k = bit_length n - bit_length d
      in if d * 2 ^ nat k \<le> n * 2 ^ nat (- k) then k else k - 1)"

definition zero_float :: "bool \<Rightarrow> pyfloat" where
  "zero_float neg = PyFin neg 0 (- 1074)"

definition round_ratio :: "bool \<Rightarrow> int \<Rightarrow> int \<Rightarrow> pyfloat" where
  \<comment> \<open>the float nearest to \<open>\<plusminus> n / d\<close> for \<open>0 \<le> n\<close> and \<open>0 < d\<close>; beyond the largest
      finite float the result is an infinity\<close>
  "round_ratio neg n d =
     (if n = 0 then zero_float neg
      else
        let e = max (floor_log2 n d - 52) (- 1074);
            m = round_half_even (n * 2 ^ nat (- e)) (d * 2 ^ nat e);
            e' = (if m = 2 ^ 53 then e + 1 else e);
            m' = (if m = 2 ^ 53 then 2 ^ 52 else m)
        in if 971 < e' then PyInf neg else PyFin neg m' e')"

definition float_of_int :: "int \<Rightarrow> pyfloat" where
  \<comment> \<open>\<open>float(n)\<close> for the integer literals of the source, all far below the overflow bound\<close>
  "float_of_int n = round_ratio (n < 0) \<bar>n\<bar> 1"

definition is_zero_float :: "pyfloat \<Rightarrow> bool" where
  "is_zero_float x = (case x of PyFin _ m _ \<Rightarrow> m = 0 | _ \<Rightarrow> False)"

fun float_mul :: "pyfloat \<Rightarrow> pyfloat \<Rightarrow> pyfloat" where
  "float_mul PyNaN _ = PyNaN"
| "float_mul _ PyNaN = PyNaN"
| "float_mul (PyInf s) (PyInf t) = PyInf (s \<noteq> t)"
| "float_mul (PyInf s) (PyFin t m e) = (if m = 0 then PyNaN else PyInf (s \<noteq> t))"
| "float_mul (PyFin s m e) (PyInf t) = (if m = 0 then PyNaN else PyInf (s \<noteq> t))"
| "float_mul (PyFin s m e) (PyFin t n f) =
     round_ratio (s \<noteq> t) (m * n * 2 ^ nat (e + f)) (2 ^ nat (- (e + f)))"

fun float_truediv :: "pyfloat \<Rightarrow> pyfloat \<Rightarrow> py_error + pyfloat" where
  "float_truediv x (PyFin t n f) =
     (if n = 0 then Inl ZeroDivisionError
      else case x of
        PyNaN \<Rightarrow> Inr PyNaN
      | PyInf s \<Rightarrow> Inr (PyInf (s \<noteq> t))
      | PyFin s m e \<Rightarrow>
          Inr (round_ratio (s \<noteq> t) (m * 2 ^ nat (e - f)) (n * 2 ^ nat (f - e))))"
| "float_truediv x PyNaN = Inr PyNaN"
| "float_truediv x (PyInf t) =
     (case x of
        PyFin s m e \<Rightarrow> Inr (zero_float (s \<noteq> t))
      | _ \<Rightarrow> Inr PyNaN)"

definition signed_mantissa :: "bool \<Rightarrow> int \<Rightarrow> int" where
  "signed_mantissa neg m = (if neg then - m else m)"

fun float_lt :: "pyfloat \<Rightarrow> pyfloat \<Rightarrow> bool" where
  "float_lt PyNaN _ = False"
| "float_lt _ PyNaN = False"
| "float_lt (PyInf s) (PyInf t) = (s \<and> \<not> t)"
| "float_lt (PyInf s) (PyFin _ _ _) = s"
| "float_lt (PyFin _ _ _) (PyInf t) = (\<not> t)"
| "float_lt (PyFin s m e) (PyFin t n f) =
     (signed_mantissa s m * 2 ^ nat (e - min e f) < signed_mantissa t n * 2 ^ nat (f - min e f))"

definition float_gt :: "pyfloat \<Rightarrow> pyfloat \<Rightarrow> bool" where
  "float_gt x y = float_lt y x"

definition float_ge :: "pyfloat \<Rightarrow> pyfloat \<Rightarrow> bool" where
  "float_ge x y = (x \<noteq> PyNaN \<and> y \<noteq> PyNaN \<and> \<not> float_lt x y)"

definition int_of_float :: "pyfloat \<Rightarrow> py_error + int" where
  \<comment> \<open>\<open>int(x)\<close>: truncation towards zero; an infinity and a NaN have no integer\<close>
  "int_of_float x =
     (case x of
        PyNaN \<Rightarrow> Inl ValueError
      | PyInf _ \<Rightarrow> Inl OverflowError
      | PyFin s m e \<Rightarrow> Inr (signed_mantissa s (m * 2 ^ nat e div 2 ^ nat (- e))))"

definition int_truediv :: "int \<Rightarrow> int \<Rightarrow> py_error + pyfloat" where
  \<comment> \<open>\<open>a / b\<close> on two Python integers: the correctly rounded quotient\<close>
  "int_truediv a b =
     (if b = 0 then Inl ZeroDivisionError
      else case round_ratio ((a < 0) \<noteq> (b < 0)) \<bar>a\<bar> \<bar>b\<bar> of
        PyInf _ \<Rightarrow> Inl OverflowError
      | r \<Rightarrow> Inr r)"


subsection \<open>Reading a float out of a string: \<open>float(s)\<close>\<close>

text \<open>
  A Python string is a sequence of code points; a \<open>char\<close> here is one code point below
  256.  \<open>float(s)\<close> accepts an underscore only between two digits, ignores white space
  around the number, and then wants a sign, and either \<open>inf\<close>, \<open>infinity\<close> or \<open>nan\<close>
  in any case, or a decimal number with an optional exponent; the value is rounded
  correctly.  Everything else, the empty string included, raises \<open>ValueError\<close>.
\<close>

definition is_digit :: "char \<Rightarrow> bool" where
  "is_digit c = (c \<in> set ''0123456789'')"

definition digit_value :: "char \<Rightarrow> int" where
  "digit_value c = int (of_char c) - 48"

definition digits_value :: "string \<Rightarrow> int" where
  "digits_value ds = foldl (\<lambda>a c. 10 * a + digit_value c) 0 ds"

definition is_float_space :: "char \<Rightarrow> bool" where
  "is_float_space c =
     (c \<in> set [CHR 0x09, CHR 0x0A, CHR 0x0B, CHR 0x0C, CHR 0x0D, CHR 0x20, CHR 0x85, CHR 0xA0])"

fun underscores_ok :: "char \<Rightarrow> string \<Rightarrow> bool" where
  "underscores_ok prev [] = (prev \<noteq> CHR ''_'')"
| "underscores_ok prev (c # cs) =
     (if c = CHR ''_'' then is_digit prev \<and> underscores_ok c cs
      else if prev = CHR ''_'' then is_digit c \<and> underscores_ok c cs
      else underscores_ok c cs)"

definition lower_ascii :: "char \<Rightarrow> char" where
  "lower_ascii c =
     (if 65 \<le> (of_char c :: nat) \<and> (of_char c :: nat) \<le> 90 then char_of (of_char c + (32 :: nat)) else c)"

definition upper_ascii :: "char \<Rightarrow> char" where
  "upper_ascii c =
     (if 97 \<le> (of_char c :: nat) \<and> (of_char c :: nat) \<le> 122 then char_of (of_char c - (32 :: nat)) else c)"

definition strip_chars :: "(char \<Rightarrow> bool) \<Rightarrow> string \<Rightarrow> string" where
  \<comment> \<open>drops the characters satisfying \<open>P\<close> from both ends\<close>
  "strip_chars P s = rev (dropWhile P (rev (dropWhile P s)))"

definition split_sign :: "string \<Rightarrow> bool \<times> string" where
  "split_sign s =
     (case s of
        c # r \<Rightarrow> if c = CHR ''-'' then (True, r) else if c = CHR ''+'' then (False, r) else (False, s)
      | [] \<Rightarrow> (False, s))"

definition parse_exponent :: "string \<Rightarrow> int option" where
  \<comment> \<open>the text after the mantissa: nothing, or \<open>e\<close>, a sign and at least one digit\<close>
  "parse_exponent s =
     (case s of
        [] \<Rightarrow> Some 0
      | c # r \<Rightarrow>
          if c = CHR ''e'' \<or> c = CHR ''E'' then
            (let (neg, ds) = split_sign r
             in if ds \<noteq> [] \<and> list_all is_digit ds
                then Some (if neg then - digits_value ds else digits_value ds)
                else None)
          else None)"

definition parse_decimal :: "bool \<Rightarrow> string \<Rightarrow> py_error + pyfloat" where
  "parse_decimal neg s =
     (let ds1 = takeWhile is_digit s;
          r1 = dropWhile is_digit s;
          has_point = (r1 \<noteq> [] \<and> hd r1 = CHR ''.'');
          ds2 = (if has_point then takeWhile is_digit (tl r1) else []);
          r2 = (if has_point then dropWhile is_digit (tl r1) else r1)
      in if ds1 = [] \<and> ds2 = [] then Inl ValueError
         else case parse_exponent r2 of
           None \<Rightarrow> Inl ValueError
         | Some ex \<Rightarrow>
             (let ex10 = ex - int (length ds2)
              in Inr (round_ratio neg (digits_value (ds1 @ ds2) * 10 ^ nat ex10) (10 ^ nat (- ex10)))))"

definition py_float :: "string \<Rightarrow> py_error + pyfloat" where
  "py_float s =
     (if \<not> underscores_ok (CHR 0x00) s then Inl ValueError
      else
        let (neg, r) = split_sign (strip_chars is_float_space (filter (\<lambda>c. c \<noteq> CHR ''_'') s));
            low = map lower_ascii r
        in if low = ''inf'' \<or> low = ''infinity'' then Inr (PyInf neg)
           else if low = ''nan'' then Inr PyNaN
           else parse_decimal neg r)"


subsection \<open>String operations of the source\<close>

fun split_on :: "char \<Rightarrow> string \<Rightarrow> string list" where
  \<comment> \<open>\<open>s.split(sep)\<close> for a separator of one character\<close>
  "split_on sep [] = [[]]"
| "split_on sep (c # cs) =
     (if c = sep then [] # split_on sep cs
      else (c # hd (split_on sep cs)) # tl (split_on sep cs))"

fun join :: "string \<Rightarrow> string list \<Rightarrow> string" where
  \<comment> \<open>\<open>sep.join(parts)\<close>\<close>
  "join sep [] = []"
| "join sep [x] = x"
| "join sep (x # y # ys) = x @ sep @ join sep (y # ys)"

definition replace_char :: "char \<Rightarrow> string \<Rightarrow> string" where
  \<comment> \<open>\<open>s.replace(c, '')\<close>\<close>
  "replace_char c s = filter (\<lambda>x. x \<noteq> c) s"

definition strip_brackets :: "string \<Rightarrow> string" where
  \<comment> \<open>\<open>s.strip('[]')\<close>: square brackets are dropped at the two ends only\<close>
  "strip_brackets s = strip_chars (\<lambda>c. c = CHR ''['' \<or> c = CHR '']'') s"

fun contains :: "string \<Rightarrow> string \<Rightarrow> bool" where
  \<comment> \<open>\<open>needle in s\<close>\<close>
  "contains needle [] = (needle = [])"
| "contains needle (c # cs) = (take (length needle) (c # cs) = needle \<or> contains needle cs)"

definition bracketed :: "string \<Rightarrow> string" where
  "bracketed col = ''['' @ col @ '']''"

section \<open>The parsed document\<close>

text \<open>
  An element of \<open>xml.etree.ElementTree\<close>: its tag (the namespace in braces, then the
  local name), its attributes and its child elements in document order.  The text between
  elements is never read by the analyzer.
\<close>

datatype element = Element (tag: string) (attrib: "(string \<times> string) list") (children: "element list")

definition showplan :: "string \<Rightarrow> string" where
  \<comment> \<open>the tag that the prefix \<open>p:\<close> of \<open>NAMESPACES\<close> gives a local name\<close>
  "showplan local = ''{http://schemas.microsoft.com/sqlserver/2004/07/showplan}'' @ local"

definition get :: "element \<Rightarrow> string \<Rightarrow> string option" where
  "get e k = map_of (attrib e) k"

definition get_or :: "element \<Rightarrow> string \<Rightarrow> string \<Rightarrow> string" where
  \<comment> \<open>\<open>e.get(k, dflt)\<close>\<close>
  "get_or e k dflt = (case get e k of None \<Rightarrow> dflt | Some v \<Rightarrow> v)"

fun iter :: "element \<Rightarrow> element list" where
  \<comment> \<open>the element and all its descendants, in document order\<close>
  "iter (Element t a cs) = Element t a cs # concat (map iter cs)"

definition findall_descendants :: "string \<Rightarrow> element \<Rightarrow> element list" where
  \<comment> \<open>\<open>e.findall('.//p:name', NAMESPACES)\<close>: the element itself is not among the matches\<close>
  "findall_descendants local e =
     filter (\<lambda>x. tag x = showplan local) (concat (map iter (children e)))"

definition findall_children :: "string \<Rightarrow> element \<Rightarrow> element list" where
  "findall_children local e = filter (\<lambda>x. tag x = showplan local) (children e)"

definition findall_descendants_children :: "string \<Rightarrow> string \<Rightarrow> element \<Rightarrow> element list" where
  \<comment> \<open>\<open>e.findall('.//p:outer/p:inner', NAMESPACES)\<close>\<close>
  "findall_descendants_children outer inner e =
     concat (map (findall_children inner) (findall_descendants outer e))"

definition float_attr :: "element \<Rightarrow> string \<Rightarrow> py_error + pyfloat" where
  \<comment> \<open>\<open>float(e.get(k, 0))\<close>\<close>
  "float_attr e k = (case get e k of None \<Rightarrow> Inr (float_of_int 0) | Some v \<Rightarrow> py_float v)"

section \<open>The data model\<close>

record OperatorDetails =
  logical_op :: string
  physical_op :: string
  estimated_cost :: pyfloat  \<comment> \<open>shown with four decimals\<close>
  estimated_cpu :: string
  estimated_io :: string

record OperatorInfo =
  name :: string
  cost_percentage :: pyfloat
  estimated_rows :: int
  actual_rows :: "int option"
  object_name :: string
  index_name :: string
  operator_warnings :: "string list"  \<comment> \<open>the field \<open>warnings\<close> of \<open>OperatorInfo\<close>\<close>
  details :: OperatorDetails

record MissingIndex =
  impact :: pyfloat
  table_name :: string
  equality_columns :: "string list"
  inequality_columns :: "string list"
  included_columns :: "string list"
  create_statement :: string

text \<open>
  The analyzer's warnings are lines of text built from a fixed template and the values
  put into it.  A warning is kept as its template and those values.
\<close>

datatype warning =
    TableScan string int pyfloat  \<comment> \<open>object, estimated rows, cost share\<close>
  | ClusteredIndexScan string int pyfloat
  | KeyLookup string int pyfloat
  | SortOperation int pyfloat
  | HashMatch int pyfloat
  | ImplicitConversion string
  | RowEstimationError string int int  \<comment> \<open>object, estimated rows, actual rows\<close>
  | NoJoinPredicate
  | UnmatchedIndexes

record analyzer =
  threshold_percentage :: pyfloat
  expensive_operators :: "OperatorInfo list"
  missing_indexes :: "MissingIndex list"
  warnings :: "warning list"
  total_cost :: pyfloat

definition init :: "pyfloat \<Rightarrow> analyzer" where
  "init threshold =
     \<lparr>threshold_percentage = threshold, expensive_operators = [], missing_indexes = [],
      warnings = [], total_cost = zero_float False\<rparr>"

definition append_warning :: "analyzer \<Rightarrow> warning \<Rightarrow> analyzer" where
  \<comment> \<open>\<open>self.warnings.append(w)\<close>\<close>
  "append_warning s w = s\<lparr>warnings := warnings s @ [w]\<rparr>"

section \<open>The analysis\<close>

text \<open>
  The analyzer object is passed through every method and returned updated.  A method that
  can raise returns the exception beside the state it had reached, since what it had
  appended before stays on the object.
\<close>

subsection \<open>\<open>_extract_total_cost\<close>\<close>

fun first_statement_cost :: "element list \<Rightarrow> string option" where
  \<comment> \<open>the attribute of the first statement that has it and has it non-empty\<close>
  "first_statement_cost [] = None"
| "first_statement_cost (stmt # rest) =
     (case get stmt ''StatementSubTreeCost'' of
        None \<Rightarrow> first_statement_cost rest
      | Some cost \<Rightarrow> if cost \<noteq> [] then Some cost else first_statement_cost rest)"

definition extract_total_cost :: "analyzer \<Rightarrow> element \<Rightarrow> analyzer \<times> py_error option" where
  "extract_total_cost s root =
     (case first_statement_cost (findall_descendants ''StmtSimple'' root) of
        None \<Rightarrow> (s, None)
      | Some cost \<Rightarrow>
          (case py_float cost of
             Inl err \<Rightarrow> (s, Some err)
           | Inr c \<Rightarrow> (s\<lparr>total_cost := c\<rparr>, None)))"

subsection \<open>\<open>_extract_operator_info\<close>\<close>

definition compute_cost_percentage :: "pyfloat \<Rightarrow> pyfloat \<Rightarrow> py_error + pyfloat" where
  \<comment> \<open>\<open>cost_percentage = 0.0\<close>, and \<open>(estimated_cost / self.total_cost) * 100\<close> if
      \<open>self.total_cost > 0\<close>\<close>
  "compute_cost_percentage cost plan_cost =
     (if float_gt plan_cost (float_of_int 0) then
        (case float_truediv cost plan_cost of
           Inl err \<Rightarrow> Inl err
         | Inr q \<Rightarrow> Inr (float_mul q (float_of_int 100)))
      else Inr (zero_float False))"

definition object_and_index_name :: "element \<Rightarrow> string \<times> string" where
  \<comment> \<open>the loop over the \<open>Object\<close> descendants, each one overwriting both names\<close>
  "object_and_index_name relop =
     foldl (\<lambda>names obj.
              ((case get obj ''Table'' of Some t \<Rightarrow> t | None \<Rightarrow> get_or obj ''Index'' []),
               get_or obj ''Index'' []))
       ([], []) (findall_descendants ''Object'' relop)"

definition statistics_warnings :: "element \<Rightarrow> string list" where
  "statistics_warnings relop =
     concat (map (\<lambda>warning.
       concat (map (\<lambda>column.
         map (\<lambda>col. ''No statistics on column: '' @ get_or col ''Column'' [])
           (findall_descendants ''ColumnReference'' column))
         (findall_descendants ''ColumnsWithNoStatistics'' warning)))
       (findall_descendants ''Warnings'' relop))"

definition read_actual_rows :: "element \<Rightarrow> py_error + int option" where
  "read_actual_rows relop =
     (case get relop ''ActualRows'' of
        None \<Rightarrow> Inr None
      | Some a \<Rightarrow>
          if a \<noteq> [] then
            (case py_float a of
               Inl err \<Rightarrow> Inl err
             | Inr f \<Rightarrow> (case int_of_float f of Inl err \<Rightarrow> Inl err | Inr n \<Rightarrow> Inr (Some n)))
          else Inr None)"

definition extract_operator_info :: "analyzer \<Rightarrow> element \<Rightarrow> py_error + OperatorInfo" where
  "extract_operator_info s relop =
     (case float_attr relop ''EstimatedTotalSubtreeCost'' of
        Inl err \<Rightarrow> Inl err
      | Inr cost \<Rightarrow>
     (case float_attr relop ''EstimateRows'' of
        Inl err \<Rightarrow> Inl err
      | Inr rows_float \<Rightarrow>
     (case int_of_float rows_float of
        Inl err \<Rightarrow> Inl err
      | Inr rows \<Rightarrow>
     (case compute_cost_percentage cost (total_cost s) of
        Inl err \<Rightarrow> Inl err
      | Inr percentage \<Rightarrow>
     (case read_actual_rows relop of
        Inl err \<Rightarrow> Inl err
      | Inr actual \<Rightarrow>
          Inr \<lparr>name = get_or relop ''PhysicalOp'' [],
               cost_percentage = percentage,
               estimated_rows = rows,
               actual_rows = actual,
               object_name = fst (object_and_index_name relop),
               index_name = snd (object_and_index_name relop),
               operator_warnings = statistics_warnings relop,
               details =
                 \<lparr>logical_op = get_or relop ''LogicalOp'' [],
                  physical_op = get_or relop ''PhysicalOp'' [],
                  estimated_cost = cost,
                  estimated_cpu = get_or relop ''EstimateCPU'' ''0'',
                  estimated_io = get_or relop ''EstimateIO'' ''0''\<rparr>\<rparr>)))))"

subsection \<open>\<open>_check_problem_operators\<close>\<close>

definition check_physical_op :: "analyzer \<Rightarrow> OperatorInfo \<Rightarrow> analyzer" where
  \<comment> \<open>the \<open>if\<close>/\<open>elif\<close> chain on the physical operator\<close>
  "check_physical_op s info =
     (if name info = ''Table Scan'' then
        append_warning s (TableScan (object_name info) (estimated_rows info) (cost_percentage info))
      else if name info = ''Clustered Index Scan'' then
        (if float_gt (cost_percentage info) (float_of_int 20) then
           append_warning s
             (ClusteredIndexScan (object_name info) (estimated_rows info) (cost_percentage info))
         else s)
      else if name info = ''Key Lookup'' \<or> name info = ''RID Lookup'' then
        append_warning s (KeyLookup (object_name info) (estimated_rows info) (cost_percentage info))
      else if name info = ''Sort'' then
        (if 100000 < estimated_rows info then
           append_warning s (SortOperation (estimated_rows info) (cost_percentage info))
         else s)
      else if name info = ''Hash Match'' then
        (if float_gt (cost_percentage info) (float_of_int 25) then
           append_warning s (HashMatch (estimated_rows info) (cost_percentage info))
         else s)
      else s)"

definition check_implicit_conversion :: "analyzer \<Rightarrow> OperatorInfo \<Rightarrow> analyzer" where
  \<comment> \<open>\<open>'CONVERT_IMPLICIT' in warning.upper()\<close>; on the needle's letters \<open>upper\<close> is the
      ASCII one\<close>
  "check_implicit_conversion s info =
     foldl (\<lambda>s' w.
              if contains ''CONVERT_IMPLICIT'' (map upper_ascii w)
              then append_warning s' (ImplicitConversion (object_name info))
              else s')
       s (operator_warnings info)"

definition check_row_estimation :: "analyzer \<Rightarrow> OperatorInfo \<Rightarrow> analyzer \<times> py_error option" where
  "check_row_estimation s info =
     (case actual_rows info of
        None \<Rightarrow> (s, None)
      | Some actual \<Rightarrow>
          if 0 < estimated_rows info then
            (case int_truediv actual (estimated_rows info) of
               Inl err \<Rightarrow> (s, Some err)
             | Inr ratio \<Rightarrow>
                 if float_gt ratio (float_of_int 10) \<or> float_lt ratio (round_ratio False 1 10) then
                   (append_warning s
                      (RowEstimationError (object_name info) (estimated_rows info) actual), None)
                 else (s, None))
          else (s, None))"

definition check_problem_operators ::
  "analyzer \<Rightarrow> element \<Rightarrow> OperatorInfo option \<Rightarrow> analyzer \<times> py_error option" where
  "check_problem_operators s relop operator_info =
     (case operator_info of
        None \<Rightarrow> (s, None)
      | Some info \<Rightarrow>
          check_row_estimation (check_implicit_conversion (check_physical_op s info) info) info)"

subsection \<open>\<open>_analyze_operators\<close>\<close>

fun analyze_relops :: "analyzer \<Rightarrow> element list \<Rightarrow> analyzer \<times> py_error option" where
  \<comment> \<open>the loop over the \<open>RelOp\<close> elements\<close>
  "analyze_relops s [] = (s, None)"
| "analyze_relops s (relop # rest) =
     (case extract_operator_info s relop of
        Inl err \<Rightarrow> (s, Some err)
      | Inr info \<Rightarrow>
          (case check_problem_operators
                  (if float_ge (cost_percentage info) (threshold_percentage s)
                   then s\<lparr>expensive_operators := expensive_operators s @ [info]\<rparr>
                   else s)
                  relop (Some info) of
             (s', Some err) \<Rightarrow> (s', Some err)
           | (s', None) \<Rightarrow> analyze_relops s' rest))"

definition analyze_operators :: "analyzer \<Rightarrow> element \<Rightarrow> analyzer \<times> py_error option" where
  "analyze_operators s root = analyze_relops s (findall_descendants ''RelOp'' root)"

subsection \<open>\<open>_generate_create_index\<close>\<close>

definition bare_table_name :: "string \<Rightarrow> string" where
  \<comment> \<open>the local \<open>table_name\<close>: the part after the last dot\<close>
  "bare_table_name table =
     (let table_parts = split_on (CHR ''.'') table
      in if 2 \<le> length table_parts then last table_parts else table)"

definition generate_index_name :: "string \<Rightarrow> string list \<Rightarrow> string" where
  \<comment> \<open>the local \<open>index_name\<close>\<close>
  "generate_index_name table equality =
     (let index_name =
            replace_char (CHR '']'')
              (replace_char (CHR ''['')
                 (''IX_'' @ bare_table_name table @ ''_'' @ join ''_'' (take 3 equality)))
      in if 60 < length index_name then take 60 index_name else index_name)"

definition generate_create_index ::
  "string \<Rightarrow> string list \<Rightarrow> string list \<Rightarrow> string list \<Rightarrow> string" where
  "generate_create_index table equality inequality included =
     (let key_cols_str = join '', '' (map bracketed (equality @ inequality));
          include_clause =
            (if included \<noteq> []
             then [CHR 0x0A] @ ''INCLUDE ('' @ join '', '' (map bracketed included) @ '')''
             else [])
      in ''CREATE NONCLUSTERED INDEX '' @ generate_index_name table equality @ [CHR 0x0A] @
         ''ON '' @ table @ '' ('' @ key_cols_str @ '')'' @ include_clause @ '';'')"

subsection \<open>\<open>_extract_missing_indexes\<close>\<close>

definition group_columns :: "element \<Rightarrow> string list" where
  "group_columns col_group =
     map (\<lambda>col. strip_brackets (get_or col ''Name'' [])) (findall_descendants ''Column'' col_group)"

definition column_groups :: "element \<Rightarrow> string list \<times> string list \<times> string list" where
  \<comment> \<open>the loop over the column groups of one suggestion: a group replaces the list of
      its usage\<close>
  "column_groups idx =
     foldl (\<lambda>(equality_cols, inequality_cols, included_cols) col_group.
              if get_or col_group ''Usage'' [] = ''EQUALITY''
              then (group_columns col_group, inequality_cols, included_cols)
              else if get_or col_group ''Usage'' [] = ''INEQUALITY''
              then (equality_cols, group_columns col_group, included_cols)
              else if get_or col_group ''Usage'' [] = ''INCLUDE''
              then (equality_cols, inequality_cols, group_columns col_group)
              else (equality_cols, inequality_cols, included_cols))
       ([], [], []) (findall_descendants ''ColumnGroup'' idx)"

definition make_missing_index :: "pyfloat \<Rightarrow> element \<Rightarrow> MissingIndex" where
  \<comment> \<open>the body of the inner loop: the record built for one \<open>MissingIndex\<close> element\<close>
  "make_missing_index group_impact idx =
     (let table = strip_brackets (get_or idx ''Table'' []);
          (equality_cols, inequality_cols, included_cols) = column_groups idx
      in \<lparr>impact = group_impact,
          table_name = table,
          equality_columns = equality_cols,
          inequality_columns = inequality_cols,
          included_columns = included_cols,
          create_statement =
            generate_create_index table equality_cols inequality_cols included_cols\<rparr>)"

fun missing_index_groups :: "analyzer \<Rightarrow> element list \<Rightarrow> analyzer \<times> py_error option" where
  \<comment> \<open>the loop over the \<open>MissingIndexGroup\<close> elements\<close>
  "missing_index_groups s [] = (s, None)"
| "missing_index_groups s (missing_idx # rest) =
     (case float_attr missing_idx ''Impact'' of
        Inl err \<Rightarrow> (s, Some err)
      | Inr group_impact \<Rightarrow>
          missing_index_groups
            (foldl (\<lambda>s' idx.
                      s'\<lparr>missing_indexes := missing_indexes s' @ [make_missing_index group_impact idx]\<rparr>)
               s (findall_descendants ''MissingIndex'' missing_idx))
            rest)"

definition extract_missing_indexes :: "analyzer \<Rightarrow> element \<Rightarrow> analyzer \<times> py_error option" where
  "extract_missing_indexes s root =
     missing_index_groups s
       (findall_descendants_children ''MissingIndexes'' ''MissingIndexGroup'' root)"

subsection \<open>\<open>_extract_warnings\<close>\<close>

definition extract_warnings :: "analyzer \<Rightarrow> element \<Rightarrow> analyzer" where
  "extract_warnings s root =
     foldl (\<lambda>s' warning.
              foldl (\<lambda>s'' unmatched. append_warning s'' UnmatchedIndexes)
                (if findall_descendants ''NoJoinPredicate'' warning \<noteq> []
                 then append_warning s' NoJoinPredicate
                 else s')
                (findall_descendants ''UnmatchedIndexes'' warning))
       s (findall_descendants ''Warnings'' root)"

subsection \<open>\<open>analyze_plan\<close>\<close>

definition analyze_plan :: "analyzer \<Rightarrow> element \<Rightarrow> analyzer \<times> py_error option" where
  "analyze_plan s root =
     (case extract_total_cost s root of
        (s1, Some err) \<Rightarrow> (s1, Some err)
      | (s1, None) \<Rightarrow>
     (case analyze_operators s1 root of
        (s2, Some err) \<Rightarrow> (s2, Some err)
      | (s2, None) \<Rightarrow>
     (case extract_missing_indexes s2 root of
        (s3, Some err) \<Rightarrow> (s3, Some err)
      | (s3, None) \<Rightarrow> (extract_warnings s3 root, None))))"

subsection \<open>\<open>print_report\<close>\<close>

text \<open>
  \<open>print_report\<close> writes the report with one \<open>print\<close> after the other.  A \<open>print\<close> to
  the standard output raises \<open>UnicodeEncodeError\<close>, and writes nothing of its text, when
  the encoding of the standard output has no code for one of the characters.  The
  headings of the report and every warning carry a symbol from beyond the Latin
  alphabets, so whether the report can be printed depends on that encoding.  A console
  is given by the code points from 128 on that a \<open>print\<close> to it accepts; the ASCII
  characters are accepted by every console.  The numbers of the report are printed in
  ASCII characters.
\<close>

type_synonym console = "int \<Rightarrow> bool"

definition encodable :: "console \<Rightarrow> int \<Rightarrow> bool" where
  "encodable con code_point = (code_point < 128 \<or> con code_point)"

definition encodes_text :: "console \<Rightarrow> string \<Rightarrow> bool" where
  "encodes_text con text = list_all (\<lambda>c. encodable con (of_char c)) text"

fun warning_encodable :: "console \<Rightarrow> warning \<Rightarrow> bool" where
  \<comment> \<open>the text of a warning: a red circle (U+1F534) or a yellow circle (U+1F7E1), the
      template and the values\<close>
  "warning_encodable con (TableScan obj estimated share) =
     (encodable con 0x1F534 \<and> encodes_text con obj)"
| "warning_encodable con (ClusteredIndexScan obj estimated share) =
     (encodable con 0x1F7E1 \<and> encodes_text con obj)"
| "warning_encodable con (KeyLookup obj estimated share) =
     (encodable con 0x1F7E1 \<and> encodes_text con obj)"
| "warning_encodable con (SortOperation estimated share) = encodable con 0x1F7E1"
| "warning_encodable con (HashMatch estimated share) = encodable con 0x1F7E1"
| "warning_encodable con (ImplicitConversion obj) =
     (encodable con 0x1F534 \<and> encodes_text con obj)"
| "warning_encodable con (RowEstimationError obj estimated actual) =
     (encodable con 0x1F7E1 \<and> encodes_text con obj)"
| "warning_encodable con NoJoinPredicate = encodable con 0x1F534"
| "warning_encodable con UnmatchedIndexes = encodable con 0x1F7E1"

definition operator_encodable :: "console \<Rightarrow> OperatorInfo \<Rightarrow> bool" where
  \<comment> \<open>the lines of one expensive operator; each of its own warnings follows a warning
      sign (U+26A0, U+FE0F)\<close>
  "operator_encodable con op =
     (encodes_text con (name op) \<and>
      encodes_text con (if object_name op \<noteq> [] then object_name op else ''N/A'') \<and>
      (if index_name op \<noteq> [] then encodes_text con (index_name op) else True) \<and>
      (if operator_warnings op \<noteq> []
       then encodable con 0x26A0 \<and> encodable con 0xFE0F \<and>
            list_all (encodes_text con) (operator_warnings op)
       else True))"

definition missing_index_encodable :: "console \<Rightarrow> MissingIndex \<Rightarrow> bool" where
  "missing_index_encodable con idx =
     (encodes_text con (table_name idx) \<and>
      (if equality_columns idx \<noteq> [] then encodes_text con (join '', '' (equality_columns idx))
       else True) \<and>
      (if inequality_columns idx \<noteq> []
       then encodes_text con (join '', '' (inequality_columns idx)) else True) \<and>
      (if included_columns idx \<noteq> [] then encodes_text con (join '', '' (included_columns idx))
       else True) \<and>
      encodes_text con (create_statement idx))"

definition report_encodable :: "console \<Rightarrow> analyzer \<Rightarrow> bool" where
  \<comment> \<open>every \<open>print\<close> of \<open>print_report\<close> returns: the summary heading (U+1F4CA), the
      expensive operators under their heading (U+1F525), the warnings under theirs
      (U+26A0, U+FE0F), the missing indexes under theirs (U+1F4CB), and the heading of the
      best practices (U+1F4A1)\<close>
  "report_encodable con s =
     (encodable con 0x1F4CA \<and>
      (if expensive_operators s \<noteq> []
       then encodable con 0x1F525 \<and> list_all (operator_encodable con) (expensive_operators s)
       else True) \<and>
      (if warnings s \<noteq> []
       then encodable con 0x26A0 \<and> encodable con 0xFE0F \<and>
            list_all (warning_encodable con) (warnings s)
       else True) \<and>
      (if missing_indexes s \<noteq> []
       then encodable con 0x1F4CB \<and> list_all (missing_index_encodable con) (missing_indexes s)
       else True) \<and>
      encodable con 0x1F4A1)"

subsection \<open>\<open>analyze_file\<close> and \<open>main\<close>\<close>

text \<open>
  What \<open>ET.parse\<close> finds at the path: no file, a file that is not well-formed XML (with
  the parser's message), or a document.  What the process writes: on the standard output
  the lines of \<open>main\<close> and \<open>analyze_file\<close> and the report of \<open>print_report\<close>, kept as the
  analyzer it renders, whole or, when a \<open>print\<close> of the report raised, up to the line
  before that \<open>print\<close> (the title between its two rules at the least); on the standard
  error stream the traceback of an exception that nothing catches.  Both streams are
  open and can be written to.
\<close>

datatype file_state = NoSuchFile | Malformed string | WellFormed element

datatype printed = Line string | Report analyzer | PartialReport analyzer

datatype outcome = Returned | Exited int | Raised py_error

record run =
  stdout :: "printed list"
  stderr :: "py_error list"  \<comment> \<open>the tracebacks\<close>
  analyzer_state :: analyzer
  result :: outcome

definition not_found_message :: "string \<Rightarrow> string" where
  "not_found_message file = ''Error: File '' @ [CHR 0x27] @ file @ [CHR 0x27] @ '' not found''"

definition analyzing_message :: "string \<Rightarrow> string" where
  "analyzing_message file = [CHR 0x0A] @ ''Analyzing execution plan: '' @ file"

definition parse_error_message :: "string \<Rightarrow> string" where
  "parse_error_message e = ''Error parsing XML file: '' @ e"

definition print_line :: "console \<Rightarrow> run \<Rightarrow> string \<Rightarrow> run" where
  \<comment> \<open>\<open>print(text)\<close>\<close>
  "print_line con r text =
     (if encodes_text con text then r\<lparr>stdout := stdout r @ [Line text]\<rparr>
      else r\<lparr>result := Raised UnicodeEncodeError\<rparr>)"

definition sys_exit :: "run \<Rightarrow> int \<Rightarrow> run" where
  \<comment> \<open>the \<open>sys.exit(n)\<close> after a \<open>print\<close>, reached when the \<open>print\<close> has returned\<close>
  "sys_exit r n = (case result r of Returned \<Rightarrow> r\<lparr>result := Exited n\<rparr> | _ \<Rightarrow> r)"

definition print_report :: "console \<Rightarrow> run \<Rightarrow> run" where
  "print_report con r =
     (if report_encodable con (analyzer_state r)
      then r\<lparr>stdout := stdout r @ [Report (analyzer_state r)]\<rparr>
      else r\<lparr>stdout := stdout r @ [PartialReport (analyzer_state r)],
             result := Raised UnicodeEncodeError\<rparr>)"

definition analyze_file :: "console \<Rightarrow> run \<Rightarrow> string \<Rightarrow> file_state \<Rightarrow> run" where
  "analyze_file con r file_path file =
     (case file of
        WellFormed root \<Rightarrow>
          (case analyze_plan (analyzer_state r) root of
             (s, None) \<Rightarrow> r\<lparr>analyzer_state := s, result := Returned\<rparr>
           | (s, Some err) \<Rightarrow> r\<lparr>analyzer_state := s, result := Raised err\<rparr>)
      | Malformed e \<Rightarrow> sys_exit (print_line con r (parse_error_message e)) 1
      | NoSuchFile \<Rightarrow> sys_exit (print_line con r (not_found_message file_path)) 1)"

definition exit_code :: "run \<Rightarrow> int" where
  \<comment> \<open>the status of the process: that of \<open>sys.exit\<close>, 1 after an uncaught exception, else 0\<close>
  "exit_code r = (case result r of Returned \<Rightarrow> 0 | Exited n \<Rightarrow> n | Raised err \<Rightarrow> 1)"

definition uncaught :: "run \<Rightarrow> run" where
  \<comment> \<open>the end of the process: the traceback of an exception that nothing has caught\<close>
  "uncaught r = (case result r of Raised err \<Rightarrow> r\<lparr>stderr := stderr r @ [err]\<rparr> | _ \<Rightarrow> r)"

definition main :: "console \<Rightarrow> string \<Rightarrow> pyfloat \<Rightarrow> file_state \<Rightarrow> run" where
  \<comment> \<open>\<open>main\<close> after \<open>parse_args\<close>, with the values of \<open>--file\<close> and \<open>--threshold\<close>\<close>
  "main con file threshold file_at_path =
     (let r0 = \<lparr>stdout = [], stderr = [], analyzer_state = init threshold, result = Returned\<rparr>
      in uncaught
           (if file_at_path = NoSuchFile then sys_exit (print_line con r0 (not_found_message file)) 1
            else
              (let r1 = print_line con r0 (analyzing_message file)
               in case result r1 of
                    Returned \<Rightarrow>
                      (let r2 = analyze_file con r1 file file_at_path
                       in case result r2 of
                            Returned \<Rightarrow> print_report con r2
                          | _ \<Rightarrow> r2)
                  | _ \<Rightarrow> r1)))"



section \<open>Documents used below\<close>

definition node :: "string \<Rightarrow> (string \<times> string) list \<Rightarrow> element list \<Rightarrow> element" where
  \<comment> \<open>an element of the showplan namespace\<close>
  "node local attributes cs = Element (showplan local) attributes cs"

definition scenario_b :: element where
  \<comment> \<open>one missing-index group: impact 95.5, table \<open>[dbo].[Employees]\<close>, equality column
      \<open>Department\<close>, included column \<open>Salary\<close>\<close>
  "scenario_b =
     node ''ShowPlanXML'' []
       [node ''MissingIndexes'' []
          [node ''MissingIndexGroup'' [(''Impact'', ''95.5'')]
             [node ''MissingIndex'' [(''Table'', ''[dbo].[Employees]'')]
                [node ''ColumnGroup'' [(''Usage'', ''EQUALITY'')]
                   [node ''Column'' [(''Name'', ''Department'')] []],
                 node ''ColumnGroup'' [(''Usage'', ''INCLUDE'')]
                   [node ''Column'' [(''Name'', ''Salary'')] []]]]]]"

definition sample_operator :: "int \<Rightarrow> int option \<Rightarrow> OperatorInfo" where
  \<comment> \<open>an index seek with the given estimated and actual row counts\<close>
  "sample_operator estimated actual =
     \<lparr>name = ''Index Seek'', cost_percentage = zero_float False, estimated_rows = estimated,
      actual_rows = actual, object_name = ''[Orders]'', index_name = ''[PK_Orders]'',
      operator_warnings = [],
      details = \<lparr>logical_op = ''Index Seek'', physical_op = ''Index Seek'',
                 estimated_cost = zero_float False, estimated_cpu = ''0'', estimated_io = ''0''\<rparr>\<rparr>"

definition sample_relop :: element where
  "sample_relop = node ''RelOp'' [(''PhysicalOp'', ''Index Seek'')] []"

definition zero_actual_rows_plan :: element where
  \<comment> \<open>one operator, estimated at 100 rows, that returned none\<close>
  "zero_actual_rows_plan =
     node ''ShowPlanXML'' []
       [node ''RelOp''
          [(''PhysicalOp'', ''Index Seek''), (''EstimateRows'', ''100''), (''ActualRows'', ''0'')] []]"

definition cost_57_of_100_plan :: element where
  \<comment> \<open>a statement of total cost 100 with one operator of subtree cost 57\<close>
  "cost_57_of_100_plan =
     node ''ShowPlanXML'' []
       [node ''StmtSimple'' [(''StatementSubTreeCost'', ''100'')]
          [node ''RelOp''
             [(''PhysicalOp'', ''Index Seek''), (''EstimatedTotalSubtreeCost'', ''57'')] []]]"

definition cost_57_relop :: element where
  "cost_57_relop =
     node ''RelOp'' [(''PhysicalOp'', ''Index Seek''), (''EstimatedTotalSubtreeCost'', ''57'')] []"

definition cost_57_operator :: OperatorInfo where
  \<comment> \<open>the record of that operator: its share is the float 56.99999999999999\<close>
  "cost_57_operator =
     \<lparr>name = ''Index Seek'', cost_percentage = PyFin False 8022036836253695 (- 47),
      estimated_rows = 0, actual_rows = None, object_name = [], index_name = [],
      operator_warnings = [],
      details = \<lparr>logical_op = [], physical_op = ''Index Seek'',
                 estimated_cost = PyFin False 8022036836253696 (- 47),
                 estimated_cpu = ''0'', estimated_io = ''0''\<rparr>\<rparr>"

definition two_objects_relop :: element where
  \<comment> \<open>an update operator that refers to two objects\<close>
  "two_objects_relop =
     node ''RelOp'' [(''PhysicalOp'', ''Clustered Index Update'')]
       [node ''Update'' []
          [node ''Object'' [(''Table'', ''[Orders]''), (''Index'', ''[PK_Orders]'')] [],
           node ''Object'' [(''Table'', ''[OrderLines]''), (''Index'', ''[IX_OrderLines]'')] []]]"

definition two_objects_operator :: OperatorInfo where
  "two_objects_operator =
     \<lparr>name = ''Clustered Index Update'', cost_percentage = zero_float False,
      estimated_rows = 0, actual_rows = None, object_name = ''[OrderLines]'',
      index_name = ''[IX_OrderLines]'', operator_warnings = [],
      details = \<lparr>logical_op = [], physical_op = ''Clustered Index Update'',
                 estimated_cost = zero_float False, estimated_cpu = ''0'',
                 estimated_io = ''0''\<rparr>\<rparr>"

definition empty_cost_plan :: element where
  \<comment> \<open>one operator whose subtree cost attribute is present and empty\<close>
  "empty_cost_plan =
     node ''ShowPlanXML'' []
       [node ''RelOp'' [(''PhysicalOp'', ''Index Seek''), (''EstimatedTotalSubtreeCost'', [])] []]"


definition empty_plan :: element where
  "empty_plan = node ''ShowPlanXML'' [] []"

definition repeated_column_plan :: element where
  \<comment> \<open>a suggestion that names \<open>CustomerId\<close> as equality column and as included column\<close>
  "repeated_column_plan =
     node ''ShowPlanXML'' []
       [node ''MissingIndexes'' []
          [node ''MissingIndexGroup'' [(''Impact'', ''80'')]
             [node ''MissingIndex'' [(''Table'', ''[Orders]'')]
                [node ''ColumnGroup'' [(''Usage'', ''EQUALITY'')]
                   [node ''Column'' [(''Name'', ''[CustomerId]'')] []],
                 node ''ColumnGroup'' [(''Usage'', ''INCLUDE'')]
                   [node ''Column'' [(''Name'', ''[CustomerId]'')] []]]]]]"

definition repeated_column_record :: MissingIndex where
  "repeated_column_record =
     \<lparr>impact = PyFin False 5629499534213120 (- 46), table_name = ''Orders'',
      equality_columns = [''CustomerId''], inequality_columns = [],
      included_columns = [''CustomerId''],
      create_statement =
        ''CREATE NONCLUSTERED INDEX IX_Orders_CustomerId'' @ [CHR 0x0A] @
        ''ON Orders ([CustomerId])'' @ [CHR 0x0A] @ ''INCLUDE ([CustomerId]);''\<rparr>"

section \<open>Notions used to state the results\<close>

fun is_row_estimation_error :: "warning \<Rightarrow> bool" where
  "is_row_estimation_error (RowEstimationError obj estimated actual) = True"
| "is_row_estimation_error w = False"

definition emitted_warnings :: "analyzer \<Rightarrow> analyzer \<Rightarrow> warning list" where
  \<comment> \<open>the warnings that the state \<open>s'\<close> has beyond those of the earlier state \<open>s\<close>\<close>
  "emitted_warnings s s' = drop (length (warnings s)) (warnings s')"

definition emitted_missing_indexes :: "analyzer \<Rightarrow> analyzer \<Rightarrow> MissingIndex list" where
  \<comment> \<open>the records that the state \<open>s'\<close> has beyond those of the earlier state \<open>s\<close>\<close>
  "emitted_missing_indexes s s' = drop (length (missing_indexes s)) (missing_indexes s')"

definition suggestions :: "element \<Rightarrow> element list" where
  \<comment> \<open>the \<open>MissingIndex\<close> elements that \<open>_extract_missing_indexes\<close> visits\<close>
  "suggestions root =
     concat (map (findall_descendants ''MissingIndex'')
       (findall_descendants_children ''MissingIndexes'' ''MissingIndexGroup'' root))"

definition last_group_columns :: "string \<Rightarrow> element \<Rightarrow> string list" where
  \<comment> \<open>the column names, brackets stripped at their ends, of the last column group of a
      suggestion with the given usage tag; none without such a group\<close>
  "last_group_columns usage idx =
     (case rev (filter (\<lambda>g. get_or g ''Usage'' [] = usage) (findall_descendants ''ColumnGroup'' idx)) of
        [] \<Rightarrow> []
      | g # earlier \<Rightarrow> group_columns g)"

text \<open>
  The index name in the words of the specification: \<open>IX_\<close>, the bare table name (what
  follows the last dot of the table identifier), an underscore and the first up to three
  equality columns joined by underscores; brackets removed; cut after 60 characters.
\<close>

definition after_last_dot :: "string \<Rightarrow> string" where
  "after_last_dot table = rev (takeWhile (\<lambda>c. c \<noteq> CHR ''.'') (rev table))"

definition without_brackets :: "string \<Rightarrow> string" where
  "without_brackets s = filter (\<lambda>c. c \<noteq> CHR ''['' \<and> c \<noteq> CHR '']'') s"

definition spec_index_name_uncut :: "string \<Rightarrow> string list \<Rightarrow> string" where
  "spec_index_name_uncut table equality =
     without_brackets (''IX_'' @ after_last_dot table @ ''_'' @ join ''_'' (take 3 equality))"

definition spec_index_name :: "string \<Rightarrow> string list \<Rightarrow> string" where
  "spec_index_name table equality = take 60 (spec_index_name_uncut table equality)"

section \<open>Results\<close>

subsection \<open>Scenario B: the statement synthesized for \<open>[dbo].[Employees]\<close>\<close>

text \<open>
  C1.  On the document of scenario B the analysis ends without an exception and leaves
  exactly one \<open>MissingIndex\<close> record.  Its statement names the index
  \<open>IX_Employees_Department\<close> and ends with \<open>INCLUDE ([Salary])\<close>, but its \<open>ON\<close> clause
  reads \<open>dbo].[Employees ([Department])\<close>: \<open>strip('[]')\<close> has removed the first and the
  last bracket of the table identifier and left the two inner ones, so the table is not
  named \<open>[dbo].[Employees]\<close> as the claim has it.
\<close>

theorem scenario_b_create_statement:
  "snd (analyze_plan (init (float_of_int 10)) scenario_b) = None \<and>
   map create_statement (missing_indexes (fst (analyze_plan (init (float_of_int 10)) scenario_b))) =
     [''CREATE NONCLUSTERED INDEX IX_Employees_Department'' @ [CHR 0x0A] @
      ''ON dbo].[Employees ([Department])'' @ [CHR 0x0A] @
      ''INCLUDE ([Salary]);''] \<and>
   map table_name (missing_indexes (fst (analyze_plan (init (float_of_int 10)) scenario_b))) =
     [''dbo].[Employees'']"
  by code_simp

subsection \<open>What the check of one operator appends\<close>

lemma check_physical_op_appends:
  "\<exists>ws. check_physical_op s info = s\<lparr>warnings := warnings s @ ws\<rparr> \<and>
        \<not> list_ex is_row_estimation_error ws"
proof (cases "check_physical_op s info = s")
  case True
  then have "check_physical_op s info = s\<lparr>warnings := warnings s @ []\<rparr> \<and>
     \<not> list_ex is_row_estimation_error []" by simp
  then show ?thesis by blast
next
  case False
  then show ?thesis
    unfolding check_physical_op_def append_warning_def
    by (auto split: if_splits intro!: exI[where x="[w]" for w])
qed

lemma check_implicit_conversion_appends:
  "\<exists>ws. check_implicit_conversion s info = s\<lparr>warnings := warnings s @ ws\<rparr> \<and>
        \<not> list_ex is_row_estimation_error ws"
proof -
  define f where "f = (\<lambda>s' w.
              if contains ''CONVERT_IMPLICIT'' (map upper_ascii w)
              then append_warning s' (ImplicitConversion (object_name info))
              else s')"
  have "\<exists>ws. foldl f s xs = s\<lparr>warnings := warnings s @ ws\<rparr> \<and>
        \<not> list_ex is_row_estimation_error ws" for xs
  proof (induction xs arbitrary: s)
    case Nil
    have "foldl f s [] = s\<lparr>warnings := warnings s @ []\<rparr> \<and>
       \<not> list_ex is_row_estimation_error []" by simp
    then show ?case by blast
  next
    case (Cons x xs)
    obtain ws where ws: "foldl f (f s x) xs = (f s x)\<lparr>warnings := warnings (f s x) @ ws\<rparr>"
      "\<not> list_ex is_row_estimation_error ws"
      using Cons.IH by blast
    show ?case
    proof (cases "contains ''CONVERT_IMPLICIT'' (map upper_ascii x)")
      case True
      then have "foldl f s (x # xs) =
          s\<lparr>warnings := warnings s @ (ImplicitConversion (object_name info) # ws)\<rparr>"
        using ws(1) by (simp add: f_def append_warning_def)
      moreover have "\<not> list_ex is_row_estimation_error (ImplicitConversion (object_name info) # ws)"
        using ws(2) by simp
      ultimately show ?thesis by blast
    next
      case False
      then have "foldl f s (x # xs) = s\<lparr>warnings := warnings s @ ws\<rparr>"
        using ws(1) by (simp add: f_def)
      then show ?thesis using ws(2) by blast
    qed
  qed
  then show ?thesis unfolding check_implicit_conversion_def f_def .
qed

lemma check_before_rows_appends:
  "\<exists>ws. check_implicit_conversion (check_physical_op s info) info =
          s\<lparr>warnings := warnings s @ ws\<rparr> \<and>
        \<not> list_ex is_row_estimation_error ws"
proof -
  obtain ws1 where 1: "check_physical_op s info = s\<lparr>warnings := warnings s @ ws1\<rparr>"
    "\<not> list_ex is_row_estimation_error ws1"
    using check_physical_op_appends by blast
  define s1 where "s1 = check_physical_op s info"
  obtain ws2 where 2: "check_implicit_conversion s1 info = s1\<lparr>warnings := warnings s1 @ ws2\<rparr>"
    "\<not> list_ex is_row_estimation_error ws2"
    using check_implicit_conversion_appends by blast
  have "check_implicit_conversion s1 info = s\<lparr>warnings := warnings s @ (ws1 @ ws2)\<rparr>"
    using 1(1) 2(1) by (simp add: s1_def)
  moreover have "\<not> list_ex is_row_estimation_error (ws1 @ ws2)"
    using 1(2) 2(2) by simp
  ultimately show ?thesis unfolding s1_def by blast
qed

lemma row_estimation_emitted_iff:
  "list_ex is_row_estimation_error
     (emitted_warnings s (fst (check_problem_operators s relop (Some info)))) \<longleftrightarrow>
   (\<exists>actual ratio. actual_rows info = Some actual \<and> 0 < estimated_rows info \<and>
      int_truediv actual (estimated_rows info) = Inr ratio \<and>
      (float_gt ratio (float_of_int 10) \<or> float_lt ratio (round_ratio False 1 10)))"
  (is "?emitted \<longleftrightarrow> ?cond")
proof -
  define s1 where "s1 = check_implicit_conversion (check_physical_op s info) info"
  obtain ws where ws: "s1 = s\<lparr>warnings := warnings s @ ws\<rparr>"
    "\<not> list_ex is_row_estimation_error ws"
    using check_before_rows_appends unfolding s1_def by blast
  have result: "check_problem_operators s relop (Some info) = check_row_estimation s1 info"
    by (simp add: check_problem_operators_def s1_def)
  show ?thesis
  proof (cases ?cond)
    case True
    then obtain actual ratio where c: "actual_rows info = Some actual" "0 < estimated_rows info"
      "int_truediv actual (estimated_rows info) = Inr ratio"
      "float_gt ratio (float_of_int 10) \<or> float_lt ratio (round_ratio False 1 10)"
      by blast
    have "fst (check_row_estimation s1 info) =
        append_warning s1 (RowEstimationError (object_name info) (estimated_rows info) actual)"
      using c by (auto simp add: check_row_estimation_def)
    then have "emitted_warnings s (fst (check_problem_operators s relop (Some info))) =
        ws @ [RowEstimationError (object_name info) (estimated_rows info) actual]"
      by (simp add: result ws(1) emitted_warnings_def append_warning_def)
    then show ?thesis using True by simp
  next
    case False
    then have "fst (check_row_estimation s1 info) = s1"
      by (auto simp add: check_row_estimation_def split: option.splits sum.splits)
    then have "emitted_warnings s (fst (check_problem_operators s relop (Some info))) = ws"
      by (simp add: result ws(1) emitted_warnings_def)
    then show ?thesis using False ws(2) by simp
  qed
qed

lemma float_ten: "float_of_int 10 = PyFin False 5629499534213120 (- 49)"
  by code_simp

lemma float_tenth: "round_ratio False 1 10 = PyFin False 7205759403792794 (- 56)"
  by code_simp

lemma ratio_1000_100: "int_truediv 1000 100 = Inr (PyFin False 5629499534213120 (- 49))"
  by code_simp

lemma ratio_1001_100: "int_truediv 1001 100 = Inr (PyFin False 5635129033747333 (- 49))"
  by code_simp

lemma ratio_exactly_ten_inside:
  "\<not> float_gt (PyFin False 5629499534213120 (- 49)) (PyFin False 5629499534213120 (- 49)) \<and>
   \<not> float_lt (PyFin False 5629499534213120 (- 49)) (PyFin False 7205759403792794 (- 56))"
  by code_simp

lemma ratio_above_ten_outside:
  "float_gt (PyFin False 5635129033747333 (- 49)) (PyFin False 5629499534213120 (- 49))"
  by code_simp

lemma ratio_of_no_rows: "0 < e \<Longrightarrow> int_truediv 0 e = Inr (zero_float False)"
  by (simp add: int_truediv_def round_ratio_def zero_float_def)

lemma zero_below_tenth: "float_lt (zero_float False) (round_ratio False 1 10)"
  unfolding float_tenth by code_simp

subsection \<open>When a row-estimation-error warning is emitted\<close>

text \<open>
  C3, as the code has it.  The check of an operator emits a row-estimation-error warning
  exactly when the actual row count is known, the estimated row count is greater than
  zero, and the ratio \<open>actual / estimated\<close> is greater than 10 or less than 0.1.  The
  actual row count need not be non-zero: an operator with a positive estimate whose actual
  row count is known and zero has the ratio 0 and does get the warning.
\<close>

theorem row_estimation_warning_condition:
  "(list_ex is_row_estimation_error
      (emitted_warnings s (fst (check_problem_operators s relop (Some info)))) \<longleftrightarrow>
    (\<exists>actual ratio. actual_rows info = Some actual \<and> 0 < estimated_rows info \<and>
       int_truediv actual (estimated_rows info) = Inr ratio \<and>
       (float_gt ratio (float_of_int 10) \<or> float_lt ratio (round_ratio False 1 10)))) \<and>
   (actual_rows info = Some 0 \<and> 0 < estimated_rows info \<longrightarrow>
      list_ex is_row_estimation_error
        (emitted_warnings s (fst (check_problem_operators s relop (Some info)))))"
  using row_estimation_emitted_iff [of s relop info] ratio_of_no_rows [of "estimated_rows info"]
    zero_below_tenth
  by auto

theorem row_estimation_warning_condition_witness:
  "actual_rows (sample_operator 100 (Some 0)) = Some 0 \<and>
   0 < estimated_rows (sample_operator 100 (Some 0)) \<and>
   list_ex is_row_estimation_error
     (emitted_warnings (init (float_of_int 10))
        (fst (check_problem_operators (init (float_of_int 10)) sample_relop
                (Some (sample_operator 100 (Some 0))))))"
  using row_estimation_warning_condition
          [of "init (float_of_int 10)" sample_relop "sample_operator 100 (Some 0)", THEN conjunct2]
  by (simp add: sample_operator_def)

text \<open>
  The claim as stated fails on the plan with one operator estimated at 100 rows that
  returned none: the analysis emits the warning for it.
\<close>

theorem zero_actual_rows_counterexample:
  "warnings (fst (analyze_plan (init (float_of_int 10)) zero_actual_rows_plan)) =
     [RowEstimationError [] 100 0]"
  by code_simp

subsection \<open>The thresholds of the row-estimation check are strict\<close>

lemma ratio_3_30: "int_truediv 3 30 = Inr (round_ratio False 1 10)"
  by code_simp

lemma ratio_exactly_tenth_inside:
  "\<not> float_gt (PyFin False 7205759403792794 (- 56)) (PyFin False 5629499534213120 (- 49)) \<and>
   \<not> float_lt (PyFin False 7205759403792794 (- 56)) (PyFin False 7205759403792794 (- 56))"
  by code_simp

text \<open>
  C4.  The two thresholds of the row-estimation check are strict.  For every operator
  whose ratio \<open>actual / estimated\<close> is computed, the warning is emitted exactly when the
  ratio is greater than 10 or less than 0.1, and a ratio that is exactly 10 or exactly
  0.1 gives no warning.  In particular an operator with \<open>estimated_rows = 100\<close> and
  \<open>actual_rows = 1000\<close>, whose ratio is exactly 10, gets no row-estimation-error warning,
  and with \<open>actual_rows = 1001\<close> it gets one.
\<close>

theorem row_estimation_boundary:
  "(estimated_rows info = 100 \<longrightarrow>
      (actual_rows info = Some 1000 \<longrightarrow>
         \<not> list_ex is_row_estimation_error
             (emitted_warnings s (fst (check_problem_operators s relop (Some info))))) \<and>
      (actual_rows info = Some 1001 \<longrightarrow>
         list_ex is_row_estimation_error
           (emitted_warnings s (fst (check_problem_operators s relop (Some info)))))) \<and>
   (actual_rows info = Some actual \<and> 0 < estimated_rows info \<and>
    int_truediv actual (estimated_rows info) = Inr ratio \<longrightarrow>
      (list_ex is_row_estimation_error
         (emitted_warnings s (fst (check_problem_operators s relop (Some info)))) \<longleftrightarrow>
       float_gt ratio (float_of_int 10) \<or> float_lt ratio (round_ratio False 1 10)) \<and>
      (ratio = float_of_int 10 \<longrightarrow>
         \<not> list_ex is_row_estimation_error
             (emitted_warnings s (fst (check_problem_operators s relop (Some info))))) \<and>
      (ratio = round_ratio False 1 10 \<longrightarrow>
         \<not> list_ex is_row_estimation_error
             (emitted_warnings s (fst (check_problem_operators s relop (Some info))))))"
proof (intro conjI impI)
  assume "estimated_rows info = 100" "actual_rows info = Some 1000"
  then show "\<not> list_ex is_row_estimation_error
             (emitted_warnings s (fst (check_problem_operators s relop (Some info))))"
    unfolding row_estimation_emitted_iff
    using ratio_1000_100 ratio_exactly_ten_inside by (auto simp add: float_ten float_tenth)
next
  assume "estimated_rows info = 100" "actual_rows info = Some 1001"
  then show "list_ex is_row_estimation_error
             (emitted_warnings s (fst (check_problem_operators s relop (Some info))))"
    unfolding row_estimation_emitted_iff
    using ratio_1001_100 ratio_above_ten_outside by (auto simp add: float_ten float_tenth)
next
  assume a: "actual_rows info = Some actual \<and> 0 < estimated_rows info \<and>
    int_truediv actual (estimated_rows info) = Inr ratio"
  then show iff: "list_ex is_row_estimation_error
         (emitted_warnings s (fst (check_problem_operators s relop (Some info)))) \<longleftrightarrow>
       float_gt ratio (float_of_int 10) \<or> float_lt ratio (round_ratio False 1 10)"
    unfolding row_estimation_emitted_iff by auto
  show "\<not> list_ex is_row_estimation_error
             (emitted_warnings s (fst (check_problem_operators s relop (Some info))))"
    if "ratio = float_of_int 10"
    using iff that ratio_exactly_ten_inside by (simp add: float_ten float_tenth)
  show "\<not> list_ex is_row_estimation_error
             (emitted_warnings s (fst (check_problem_operators s relop (Some info))))"
    if "ratio = round_ratio False 1 10"
    using iff that ratio_exactly_tenth_inside by (simp add: float_ten float_tenth)
qed

theorem row_estimation_boundary_witness:
  "estimated_rows (sample_operator 100 (Some 1000)) = 100 \<and>
   actual_rows (sample_operator 100 (Some 1000)) = Some 1000 \<and>
   \<not> list_ex is_row_estimation_error
       (emitted_warnings (init (float_of_int 10))
          (fst (check_problem_operators (init (float_of_int 10)) sample_relop
                  (Some (sample_operator 100 (Some 1000)))))) \<and>
   estimated_rows (sample_operator 100 (Some 1001)) = 100 \<and>
   actual_rows (sample_operator 100 (Some 1001)) = Some 1001 \<and>
   list_ex is_row_estimation_error
     (emitted_warnings (init (float_of_int 10))
        (fst (check_problem_operators (init (float_of_int 10)) sample_relop
                (Some (sample_operator 100 (Some 1001)))))) \<and>
   (actual_rows (sample_operator 30 (Some 3)) = Some 3 \<and>
    0 < estimated_rows (sample_operator 30 (Some 3)) \<and>
    int_truediv 3 (estimated_rows (sample_operator 30 (Some 3))) = Inr (round_ratio False 1 10)) \<and>
   \<not> list_ex is_row_estimation_error
       (emitted_warnings (init (float_of_int 10))
          (fst (check_problem_operators (init (float_of_int 10)) sample_relop
                  (Some (sample_operator 30 (Some 3)))))) \<and>
   (actual_rows (sample_operator 100 (Some 1000)) = Some 1000 \<and>
    0 < estimated_rows (sample_operator 100 (Some 1000)) \<and>
    int_truediv 1000 (estimated_rows (sample_operator 100 (Some 1000))) = Inr (float_of_int 10))"
proof -
  have rows_1000: "estimated_rows (sample_operator 100 (Some 1000)) = 100"
    "actual_rows (sample_operator 100 (Some 1000)) = Some 1000"
    by (simp_all add: sample_operator_def)
  have rows_1001: "estimated_rows (sample_operator 100 (Some 1001)) = 100"
    "actual_rows (sample_operator 100 (Some 1001)) = Some 1001"
    by (simp_all add: sample_operator_def)
  have tenth: "actual_rows (sample_operator 30 (Some 3)) = Some 3 \<and>
    0 < estimated_rows (sample_operator 30 (Some 3)) \<and>
    int_truediv 3 (estimated_rows (sample_operator 30 (Some 3))) = Inr (round_ratio False 1 10)"
    using ratio_3_30 by (simp add: sample_operator_def)
  have ten: "actual_rows (sample_operator 100 (Some 1000)) = Some 1000 \<and>
    0 < estimated_rows (sample_operator 100 (Some 1000)) \<and>
    int_truediv 1000 (estimated_rows (sample_operator 100 (Some 1000))) = Inr (float_of_int 10)"
    using ratio_1000_100 by (simp add: sample_operator_def float_ten)
  have no_warning_at_ten:
    "\<not> list_ex is_row_estimation_error
       (emitted_warnings (init (float_of_int 10))
          (fst (check_problem_operators (init (float_of_int 10)) sample_relop
                  (Some (sample_operator 100 (Some 1000))))))"
    using row_estimation_boundary
            [of "sample_operator 100 (Some 1000)" "init (float_of_int 10)" sample_relop 1000
                "float_of_int 10", THEN conjunct1, THEN mp, OF rows_1000(1), THEN conjunct1,
             THEN mp, OF rows_1000(2)] .
  have warning_above_ten:
    "list_ex is_row_estimation_error
       (emitted_warnings (init (float_of_int 10))
          (fst (check_problem_operators (init (float_of_int 10)) sample_relop
                  (Some (sample_operator 100 (Some 1001))))))"
    using row_estimation_boundary
            [of "sample_operator 100 (Some 1001)" "init (float_of_int 10)" sample_relop 1001
                "float_of_int 10", THEN conjunct1, THEN mp, OF rows_1001(1), THEN conjunct2,
             THEN mp, OF rows_1001(2)] .
  have no_warning_at_tenth:
    "\<not> list_ex is_row_estimation_error
       (emitted_warnings (init (float_of_int 10))
          (fst (check_problem_operators (init (float_of_int 10)) sample_relop
                  (Some (sample_operator 30 (Some 3))))))"
    using row_estimation_boundary
            [of "sample_operator 30 (Some 3)" "init (float_of_int 10)" sample_relop 3
                "round_ratio False 1 10", THEN conjunct2, THEN mp, OF tenth, THEN conjunct2,
             THEN conjunct2, THEN mp, OF refl] .
  show ?thesis
    using rows_1000 rows_1001 tenth ten no_warning_at_ten warning_above_ten no_warning_at_tenth
    by blast
qed

subsection \<open>What an analysis pass changes on the analyzer\<close>

lemma check_problem_operators_appends:
  "\<exists>ws. fst (check_problem_operators s relop operator_info) = s\<lparr>warnings := warnings s @ ws\<rparr>"
proof (cases operator_info)
  case None
  then have "fst (check_problem_operators s relop operator_info) = s\<lparr>warnings := warnings s @ []\<rparr>"
    by (simp add: check_problem_operators_def)
  then show ?thesis by blast
next
  case (Some info)
  define s1 where "s1 = check_implicit_conversion (check_physical_op s info) info"
  obtain ws where ws: "s1 = s\<lparr>warnings := warnings s @ ws\<rparr>"
    using check_before_rows_appends unfolding s1_def by blast
  have "fst (check_row_estimation s1 info) = s1 \<or>
        (\<exists>w. fst (check_row_estimation s1 info) = append_warning s1 w)"
    by (auto simp add: check_row_estimation_def split: option.splits sum.splits)
  then show ?thesis
  proof
    assume "fst (check_row_estimation s1 info) = s1"
    then have "fst (check_problem_operators s relop operator_info) = s\<lparr>warnings := warnings s @ ws\<rparr>"
      using Some ws by (simp add: check_problem_operators_def s1_def)
    then show ?thesis by blast
  next
    assume "\<exists>w. fst (check_row_estimation s1 info) = append_warning s1 w"
    then obtain w where "fst (check_row_estimation s1 info) = append_warning s1 w" by blast
    then have "fst (check_problem_operators s relop operator_info) =
        s\<lparr>warnings := warnings s @ (ws @ [w])\<rparr>"
      using Some ws by (simp add: check_problem_operators_def s1_def append_warning_def)
    then show ?thesis by blast
  qed
qed

lemma analyze_relops_appends:
  "\<exists>es ws. fst (analyze_relops s relops) =
     s\<lparr>expensive_operators := expensive_operators s @ es, warnings := warnings s @ ws\<rparr>"
proof (induction relops arbitrary: s)
  case Nil
  have "fst (analyze_relops s []) =
     s\<lparr>expensive_operators := expensive_operators s @ [], warnings := warnings s @ []\<rparr>"
    by simp
  then show ?case by blast
next
  case (Cons relop rest)
  show ?case
  proof (cases "extract_operator_info s relop")
    case (Inl err)
    then have "fst (analyze_relops s (relop # rest)) =
       s\<lparr>expensive_operators := expensive_operators s @ [], warnings := warnings s @ []\<rparr>"
      by simp
    then show ?thesis by blast
  next
    case (Inr info)
    define s1 where "s1 = (if float_ge (cost_percentage info) (threshold_percentage s)
                   then s\<lparr>expensive_operators := expensive_operators s @ [info]\<rparr>
                   else s)"
    obtain es1 where es1: "s1 = s\<lparr>expensive_operators := expensive_operators s @ es1\<rparr>"
    proof (cases "float_ge (cost_percentage info) (threshold_percentage s)")
      case True
      then show ?thesis using that[of "[info]"] by (simp add: s1_def)
    next
      case False
      then show ?thesis using that[of "[]"] by (simp add: s1_def)
    qed
    define s2 where "s2 = fst (check_problem_operators s1 relop (Some info))"
    obtain ws1 where ws1: "s2 = s1\<lparr>warnings := warnings s1 @ ws1\<rparr>"
      using check_problem_operators_appends unfolding s2_def by blast
    have s2: "s2 = s\<lparr>expensive_operators := expensive_operators s @ es1, warnings := warnings s @ ws1\<rparr>"
      using es1 ws1 by simp
    show ?thesis
    proof (cases "snd (check_problem_operators s1 relop (Some info))")
      case None
      then have eq: "check_problem_operators s1 relop (Some info) = (s2, None)"
        by (simp add: s2_def prod_eq_iff)
      have "analyze_relops s (relop # rest) = analyze_relops s2 rest"
        by (simp only: analyze_relops.simps Inr sum.case eq [unfolded s1_def] prod.case option.case)
      moreover obtain es ws where "fst (analyze_relops s2 rest) =
          s2\<lparr>expensive_operators := expensive_operators s2 @ es, warnings := warnings s2 @ ws\<rparr>"
        using Cons.IH by blast
      ultimately have "fst (analyze_relops s (relop # rest)) =
          s\<lparr>expensive_operators := expensive_operators s @ (es1 @ es),
            warnings := warnings s @ (ws1 @ ws)\<rparr>"
        using s2 by simp
      then show ?thesis by blast
    next
      case (Some err)
      then have eq: "check_problem_operators s1 relop (Some info) = (s2, Some err)"
        by (simp add: s2_def prod_eq_iff)
      have "fst (analyze_relops s (relop # rest)) = s2"
        by (simp only: analyze_relops.simps Inr sum.case eq [unfolded s1_def] prod.case option.case fst_conv)
      then show ?thesis using s2 by blast
    qed
  qed
qed

lemma missing_index_records_append:
  "foldl (\<lambda>s' idx. s'\<lparr>missing_indexes := missing_indexes s' @ [f idx]\<rparr>) s idxs =
     s\<lparr>missing_indexes := missing_indexes s @ map f idxs\<rparr>"
  by (induction idxs arbitrary: s) simp_all

lemma missing_index_groups_appends:
  "\<exists>ms. fst (missing_index_groups s groups) = s\<lparr>missing_indexes := missing_indexes s @ ms\<rparr>"
proof (induction groups arbitrary: s)
  case Nil
  have "fst (missing_index_groups s []) = s\<lparr>missing_indexes := missing_indexes s @ []\<rparr>"
    by simp
  then show ?case by blast
next
  case (Cons g rest)
  show ?case
  proof (cases "float_attr g ''Impact''")
    case (Inl err)
    then have "fst (missing_index_groups s (g # rest)) = s\<lparr>missing_indexes := missing_indexes s @ []\<rparr>"
      by simp
    then show ?thesis by blast
  next
    case (Inr i)
    define s1 where "s1 = s\<lparr>missing_indexes := missing_indexes s @
        map (make_missing_index i) (findall_descendants ''MissingIndex'' g)\<rparr>"
    have "missing_index_groups s (g # rest) = missing_index_groups s1 rest"
      using Inr by (simp add: missing_index_records_append s1_def)
    moreover obtain ms where "fst (missing_index_groups s1 rest) =
        s1\<lparr>missing_indexes := missing_indexes s1 @ ms\<rparr>"
      using Cons.IH by blast
    ultimately have "fst (missing_index_groups s (g # rest)) =
        s\<lparr>missing_indexes := missing_indexes s @
          (map (make_missing_index i) (findall_descendants ''MissingIndex'' g) @ ms)\<rparr>"
      by (simp add: s1_def)
    then show ?thesis by blast
  qed
qed

lemma unmatched_appends:
  "foldl (\<lambda>s'' unmatched. append_warning s'' w) s xs =
     s\<lparr>warnings := warnings s @ replicate (length xs) w\<rparr>"
proof (induction xs arbitrary: s)
  case Nil
  then show ?case by simp
next
  case (Cons x xs)
  then show ?case by (simp add: append_warning_def replicate_app_Cons_same)
qed

lemma extract_warnings_appends:
  "\<exists>ws. extract_warnings s root = s\<lparr>warnings := warnings s @ ws\<rparr>"
proof -
  define f where "f = (\<lambda>s' warning.
              foldl (\<lambda>s'' unmatched. append_warning s'' UnmatchedIndexes)
                (if findall_descendants ''NoJoinPredicate'' warning \<noteq> []
                 then append_warning s' NoJoinPredicate
                 else s')
                (findall_descendants ''UnmatchedIndexes'' warning))"
  have step: "\<exists>ws. f s' x = s'\<lparr>warnings := warnings s' @ ws\<rparr>" for s' x
  proof (cases "findall_descendants ''NoJoinPredicate'' x \<noteq> []")
    case True
    then have "f s' x = s'\<lparr>warnings := warnings s' @ (NoJoinPredicate #
        replicate (length (findall_descendants ''UnmatchedIndexes'' x)) UnmatchedIndexes)\<rparr>"
      unfolding f_def unmatched_appends by (simp add: append_warning_def)
    then show ?thesis by blast
  next
    case False
    then have "f s' x = s'\<lparr>warnings := warnings s' @ 
        replicate (length (findall_descendants ''UnmatchedIndexes'' x)) UnmatchedIndexes\<rparr>"
      unfolding f_def unmatched_appends by simp
    then show ?thesis by blast
  qed
  have "\<exists>ws. foldl f s xs = s\<lparr>warnings := warnings s @ ws\<rparr>" for xs
  proof (induction xs arbitrary: s)
    case Nil
    have "foldl f s [] = s\<lparr>warnings := warnings s @ []\<rparr>" by simp
    then show ?case by blast
  next
    case (Cons x xs)
    obtain ws1 where 1: "f s x = s\<lparr>warnings := warnings s @ ws1\<rparr>" using step by blast
    obtain ws2 where 2: "foldl f (f s x) xs = (f s x)\<lparr>warnings := warnings (f s x) @ ws2\<rparr>"
      using Cons.IH by blast
    have "foldl f s (x # xs) = s\<lparr>warnings := warnings s @ (ws1 @ ws2)\<rparr>"
      using 1 2 by simp
    then show ?case by blast
  qed
  then show ?thesis unfolding extract_warnings_def f_def .
qed

lemma extract_total_cost_frame:
  "\<exists>c. fst (extract_total_cost s root) = s\<lparr>total_cost := c\<rparr>"
proof -
  have "fst (extract_total_cost s root) = s \<or> (\<exists>c. fst (extract_total_cost s root) = s\<lparr>total_cost := c\<rparr>)"
    by (auto simp add: extract_total_cost_def split: option.splits sum.splits)
  moreover have "s = s\<lparr>total_cost := total_cost s\<rparr>" by simp
  ultimately show ?thesis by metis
qed

lemma analyze_plan_appends:
  "\<exists>es ms ws. fst (analyze_plan s root) =
     s\<lparr>total_cost := total_cost (fst (extract_total_cost s root)),
       expensive_operators := expensive_operators s @ es,
       missing_indexes := missing_indexes s @ ms, warnings := warnings s @ ws\<rparr>"
proof -
  define s1 where "s1 = fst (extract_total_cost s root)"
  define s2 where "s2 = fst (analyze_operators s1 root)"
  define s3 where "s3 = fst (extract_missing_indexes s2 root)"
  define s4 where "s4 = extract_warnings s3 root"
  define c where "c = total_cost s1"
  have 1: "s1 = s\<lparr>total_cost := c\<rparr>"
    using extract_total_cost_frame [of s root] unfolding s1_def c_def by auto
  obtain es ws where 2: "s2 = s1\<lparr>expensive_operators := expensive_operators s1 @ es,
      warnings := warnings s1 @ ws\<rparr>"
    using analyze_relops_appends unfolding s2_def analyze_operators_def by blast
  obtain ms where 3: "s3 = s2\<lparr>missing_indexes := missing_indexes s2 @ ms\<rparr>"
    using missing_index_groups_appends unfolding s3_def extract_missing_indexes_def by blast
  obtain ws' where 4: "s4 = s3\<lparr>warnings := warnings s3 @ ws'\<rparr>"
    using extract_warnings_appends unfolding s4_def by blast
  have a: "s1 = s\<lparr>total_cost := c, expensive_operators := expensive_operators s @ [],
       missing_indexes := missing_indexes s @ [], warnings := warnings s @ []\<rparr>"
    using 1 by simp
  have b: "s2 = s\<lparr>total_cost := c, expensive_operators := expensive_operators s @ es,
       missing_indexes := missing_indexes s @ [], warnings := warnings s @ ws\<rparr>"
    using 1 2 by simp
  have c: "s3 = s\<lparr>total_cost := c, expensive_operators := expensive_operators s @ es,
       missing_indexes := missing_indexes s @ ms, warnings := warnings s @ ws\<rparr>"
    using 1 2 3 by simp
  have d: "s4 = s\<lparr>total_cost := c, expensive_operators := expensive_operators s @ es,
       missing_indexes := missing_indexes s @ ms, warnings := warnings s @ (ws @ ws')\<rparr>"
    using 1 2 3 4 by simp
  have "fst (analyze_plan s root) = s1 \<or> fst (analyze_plan s root) = s2 \<or>
        fst (analyze_plan s root) = s3 \<or> fst (analyze_plan s root) = s4"
    by (auto simp add: analyze_plan_def s1_def s2_def s3_def s4_def split: prod.splits option.splits)
  then show ?thesis using a b c d unfolding c_def s1_def by metis
qed

lemma extract_operator_info_total_cost:
  "total_cost s = total_cost t \<Longrightarrow> extract_operator_info s relop = extract_operator_info t relop"
  unfolding extract_operator_info_def by (erule ssubst) (rule refl)

lemma extract_total_cost_again:
  assumes "total_cost s' = total_cost (fst (extract_total_cost s root))"
  shows "total_cost (fst (extract_total_cost s' root)) = total_cost (fst (extract_total_cost s root))"
  using assms by (auto simp add: extract_total_cost_def split: option.splits sum.splits)

lemma total_cost_after_analysis:
  "total_cost (fst (analyze_plan s root)) = total_cost (fst (extract_total_cost s root))"
proof -
  obtain es ms ws where "fst (analyze_plan s root) =
     s\<lparr>total_cost := total_cost (fst (extract_total_cost s root)),
       expensive_operators := expensive_operators s @ es,
       missing_indexes := missing_indexes s @ ms, warnings := warnings s @ ws\<rparr>"
    using analyze_plan_appends by blast
  then show ?thesis by simp
qed

lemma second_pass_operator_info:
  "extract_operator_info (fst (extract_total_cost (fst (analyze_plan s root)) root)) relop =
   extract_operator_info (fst (extract_total_cost s root)) relop"
  by (rule extract_operator_info_total_cost)
     (rule extract_total_cost_again, rule total_cost_after_analysis)

lemma zero_total_not_positive:
  "is_zero_float t \<Longrightarrow> \<not> float_gt t (float_of_int 0)"
  by (cases t) (simp_all add: is_zero_float_def float_gt_def float_of_int_def round_ratio_def
      zero_float_def signed_mantissa_def)

lemma cost_percentage_cases:
  assumes "extract_operator_info s relop = Inr info"
  shows "\<exists>cost. float_attr relop ''EstimatedTotalSubtreeCost'' = Inr cost \<and>
           (float_gt (total_cost s) (float_of_int 0) \<longrightarrow>
              (\<exists>q. float_truediv cost (total_cost s) = Inr q \<and>
                   cost_percentage info = float_mul q (float_of_int 100))) \<and>
           (\<not> float_gt (total_cost s) (float_of_int 0) \<longrightarrow>
              cost_percentage info = zero_float False)"
  using assms
  by (auto simp add: extract_operator_info_def compute_cost_percentage_def
           split: sum.splits if_splits)

text \<open>
  C10.  An analysis pass only appends to the three accumulator lists: after
  \<open>analyze_plan\<close>, however it ends, each list is the list before the call followed by
  the new entries.  A second pass on the same analyzer therefore leaves the findings of
  the first in place and puts its own after them.
\<close>

theorem analyze_plan_only_appends:
  "(\<exists>es ms ws.
      expensive_operators (fst (analyze_plan s root)) = expensive_operators s @ es \<and>
      missing_indexes (fst (analyze_plan s root)) = missing_indexes s @ ms \<and>
      warnings (fst (analyze_plan s root)) = warnings s @ ws) \<and>
   (\<exists>es ms ws es' ms' ws'.
      expensive_operators (fst (analyze_plan s root)) = expensive_operators s @ es \<and>
      missing_indexes (fst (analyze_plan s root)) = missing_indexes s @ ms \<and>
      warnings (fst (analyze_plan s root)) = warnings s @ ws \<and>
      expensive_operators (fst (analyze_plan (fst (analyze_plan s root)) root')) =
        expensive_operators s @ es @ es' \<and>
      missing_indexes (fst (analyze_plan (fst (analyze_plan s root)) root')) =
        missing_indexes s @ ms @ ms' \<and>
      warnings (fst (analyze_plan (fst (analyze_plan s root)) root')) =
        warnings s @ ws @ ws')"
proof -
  define s1 where "s1 = fst (analyze_plan s root)"
  obtain es ms ws where 1: "s1 =
     s\<lparr>total_cost := total_cost (fst (extract_total_cost s root)),
       expensive_operators := expensive_operators s @ es,
       missing_indexes := missing_indexes s @ ms, warnings := warnings s @ ws\<rparr>"
    using analyze_plan_appends unfolding s1_def by blast
  obtain es' ms' ws' where 2: "fst (analyze_plan s1 root') =
     s1\<lparr>total_cost := total_cost (fst (extract_total_cost s1 root')),
       expensive_operators := expensive_operators s1 @ es',
       missing_indexes := missing_indexes s1 @ ms', warnings := warnings s1 @ ws'\<rparr>"
    using analyze_plan_appends by blast
  have first: "expensive_operators s1 = expensive_operators s @ es \<and>
      missing_indexes s1 = missing_indexes s @ ms \<and> warnings s1 = warnings s @ ws"
    using 1 by simp
  have second: "expensive_operators (fst (analyze_plan s1 root')) = expensive_operators s @ es @ es' \<and>
      missing_indexes (fst (analyze_plan s1 root')) = missing_indexes s @ ms @ ms' \<and>
      warnings (fst (analyze_plan s1 root')) = warnings s @ ws @ ws'"
    using first 2 by simp
  show ?thesis
    using first second unfolding s1_def by blast
qed

subsection \<open>The cost share of an operator\<close>

text \<open>
  C2, as the code has it.  For an operator whose record is built, the subtree cost \<open>c\<close>
  is read from its attribute, and \<open>cost_percentage\<close> is \<open>(c / total_cost) * 100\<close>, the
  quotient rounded to a float first and the product rounded again, when
  \<open>total_cost > 0\<close>; it is \<open>0.0\<close> when \<open>total_cost\<close> is not greater than zero, in
  particular when it is zero, whatever the operator's own cost.  A second pass over the
  same document computes the same record, bit for bit, for every operator: the second
  reading of the total cost gives the value of the first.
\<close>

theorem cost_percentage_formula:
  "(extract_operator_info s relop = Inr info \<longrightarrow>
      (\<exists>cost. float_attr relop ''EstimatedTotalSubtreeCost'' = Inr cost \<and>
         (float_gt (total_cost s) (float_of_int 0) \<longrightarrow>
            (\<exists>q. float_truediv cost (total_cost s) = Inr q \<and>
                 cost_percentage info = float_mul q (float_of_int 100))) \<and>
         (\<not> float_gt (total_cost s) (float_of_int 0) \<longrightarrow>
            cost_percentage info = zero_float False) \<and>
         (is_zero_float (total_cost s) \<longrightarrow> cost_percentage info = zero_float False))) \<and>
   extract_operator_info (fst (extract_total_cost (fst (analyze_plan s root)) root)) relop' =
     extract_operator_info (fst (extract_total_cost s root)) relop'"
proof (intro conjI impI)
  assume "extract_operator_info s relop = Inr info"
  then obtain cost where c: "float_attr relop ''EstimatedTotalSubtreeCost'' = Inr cost"
     "float_gt (total_cost s) (float_of_int 0) \<longrightarrow>
        (\<exists>q. float_truediv cost (total_cost s) = Inr q \<and>
             cost_percentage info = float_mul q (float_of_int 100))"
     "\<not> float_gt (total_cost s) (float_of_int 0) \<longrightarrow> cost_percentage info = zero_float False"
    using cost_percentage_cases by blast
  moreover have "is_zero_float (total_cost s) \<longrightarrow> cost_percentage info = zero_float False"
    using c(3) zero_total_not_positive by blast
  ultimately show "\<exists>cost. float_attr relop ''EstimatedTotalSubtreeCost'' = Inr cost \<and>
         (float_gt (total_cost s) (float_of_int 0) \<longrightarrow>
            (\<exists>q. float_truediv cost (total_cost s) = Inr q \<and>
                 cost_percentage info = float_mul q (float_of_int 100))) \<and>
         (\<not> float_gt (total_cost s) (float_of_int 0) \<longrightarrow>
            cost_percentage info = zero_float False) \<and>
         (is_zero_float (total_cost s) \<longrightarrow> cost_percentage info = zero_float False)"
    by blast
next
  show "extract_operator_info (fst (extract_total_cost (fst (analyze_plan s root)) root)) relop' =
     extract_operator_info (fst (extract_total_cost s root)) relop'"
    by (rule second_pass_operator_info)
qed

lemma cost_57_record:
  "extract_operator_info ((init (float_of_int 10))\<lparr>total_cost := float_of_int 100\<rparr>)
     cost_57_relop = Inr cost_57_operator"
  by code_simp

lemma cost_57_facts:
  "float_gt (float_of_int 100) (float_of_int 0) \<and>
   float_attr cost_57_relop ''EstimatedTotalSubtreeCost'' = Inr (float_of_int 57) \<and>
   float_truediv (float_of_int 57) (float_of_int 100) = Inr (PyFin False 5134103575202365 (- 53)) \<and>
   float_mul (PyFin False 5134103575202365 (- 53)) (float_of_int 100) =
     PyFin False 8022036836253695 (- 47)"
  by code_simp

lemma cost_57_record_without_total:
  "extract_operator_info (init (float_of_int 10)) cost_57_relop =
     Inr (cost_57_operator\<lparr>cost_percentage := zero_float False\<rparr>) \<and>
   is_zero_float (total_cost (init (float_of_int 10)))"
  by code_simp

theorem cost_percentage_formula_witness:
  "extract_operator_info ((init (float_of_int 10))\<lparr>total_cost := float_of_int 100\<rparr>)
     cost_57_relop = Inr cost_57_operator \<and>
   float_gt (float_of_int 100) (float_of_int 0) \<and>
   float_attr cost_57_relop ''EstimatedTotalSubtreeCost'' = Inr (float_of_int 57) \<and>
   float_truediv (float_of_int 57) (float_of_int 100) = Inr (PyFin False 5134103575202365 (- 53)) \<and>
   cost_percentage cost_57_operator =
     float_mul (PyFin False 5134103575202365 (- 53)) (float_of_int 100) \<and>
   extract_operator_info (init (float_of_int 10)) cost_57_relop =
     Inr (cost_57_operator\<lparr>cost_percentage := zero_float False\<rparr>) \<and>
   is_zero_float (total_cost (init (float_of_int 10))) \<and>
   cost_percentage (cost_57_operator\<lparr>cost_percentage := zero_float False\<rparr>) = zero_float False"
  using cost_percentage_formula
          [of "(init (float_of_int 10))\<lparr>total_cost := float_of_int 100\<rparr>" cost_57_relop
              cost_57_operator]
        cost_percentage_formula
          [of "init (float_of_int 10)" cost_57_relop
              "cost_57_operator\<lparr>cost_percentage := zero_float False\<rparr>"]
        cost_57_record cost_57_record_without_total cost_57_facts
  by auto

text \<open>
  The claim as stated, \<open>100 * c / total_cost\<close>, fails for the operator of cost 57 in a
  plan of cost 100.  \<open>100 * 57 / 100\<close> is 57, also when computed in floats in that order;
  the analysis computes \<open>(57 / 100) * 100\<close>, which is the float 56.99999999999999, the
  next one below 57.  With a threshold of 57 the operator is therefore left out of the
  expensive operators.
\<close>

theorem cost_share_57_counterexample:
  "map cost_percentage
     (expensive_operators (fst (analyze_plan (init (float_of_int 10)) cost_57_of_100_plan))) =
     [PyFin False 8022036836253695 (- 47)] \<and>
   float_truediv (float_mul (float_of_int 100) (float_of_int 57)) (float_of_int 100) =
     Inr (PyFin False 8022036836253696 (- 47)) \<and>
   float_of_int 57 = PyFin False 8022036836253696 (- 47) \<and>
   expensive_operators (fst (analyze_plan (init (float_of_int 57)) cost_57_of_100_plan)) = []"
  by code_simp

subsection \<open>The object and index name of an operator\<close>

lemma overwrite_keeps_last:
  "foldl (\<lambda>acc x. g x) a xs = (if xs = [] then a else g (last xs))"
  by (induction xs arbitrary: a) simp_all

lemma object_and_index_name_last:
  "object_and_index_name relop =
     (if findall_descendants ''Object'' relop = [] then ([], [])
      else ((case get (last (findall_descendants ''Object'' relop)) ''Table'' of
               Some t \<Rightarrow> t
             | None \<Rightarrow> get_or (last (findall_descendants ''Object'' relop)) ''Index'' []),
            get_or (last (findall_descendants ''Object'' relop)) ''Index'' []))"
  unfolding object_and_index_name_def overwrite_keeps_last by simp

lemma operator_names:
  assumes "extract_operator_info s relop = Inr info"
  shows "object_name info = fst (object_and_index_name relop)"
    and "index_name info = snd (object_and_index_name relop)"
  using assms by (auto simp add: extract_operator_info_def split: sum.splits)

lemma names_of_last_object:
  "extract_operator_info s relop = Inr info \<longrightarrow>
     (findall_descendants ''Object'' relop = [] \<longrightarrow> object_name info = [] \<and> index_name info = []) \<and>
     (findall_descendants ''Object'' relop \<noteq> [] \<longrightarrow>
        object_name info =
          (case get (last (findall_descendants ''Object'' relop)) ''Table'' of
             Some t \<Rightarrow> t
           | None \<Rightarrow> (case get (last (findall_descendants ''Object'' relop)) ''Index'' of
                        Some i \<Rightarrow> i | None \<Rightarrow> [])) \<and>
        index_name info =
          (case get (last (findall_descendants ''Object'' relop)) ''Index'' of
             Some i \<Rightarrow> i | None \<Rightarrow> []))"
  using operator_names [of s relop info]
  by (auto simp add: object_and_index_name_last get_or_def split: option.splits)

lemma two_objects_record:
  "extract_operator_info (init (float_of_int 10)) two_objects_relop = Inr two_objects_operator"
  by code_simp

lemma two_objects_found:
  "findall_descendants ''Object'' two_objects_relop =
     [node ''Object'' [(''Table'', ''[Orders]''), (''Index'', ''[PK_Orders]'')] [],
      node ''Object'' [(''Table'', ''[OrderLines]''), (''Index'', ''[IX_OrderLines]'')] []]"
  by code_simp

text \<open>
  C5, as the code has it.  The loop over the \<open>Object\<close> descendants of an operator
  overwrites both names at every element, so the names are those of the last such
  descendant in document order, not of the first: \<open>object_name\<close> is its \<open>Table\<close>
  attribute, or its \<open>Index\<close> attribute when it has no \<open>Table\<close>, or empty when it
  has neither; \<open>index_name\<close> is its \<open>Index\<close> attribute or empty.  Both are empty when
  the operator has no \<open>Object\<close> descendant.
\<close>

theorem object_name_of_last_reference:
  "extract_operator_info s relop = Inr info \<longrightarrow>
     (findall_descendants ''Object'' relop = [] \<longrightarrow> object_name info = [] \<and> index_name info = []) \<and>
     (findall_descendants ''Object'' relop \<noteq> [] \<longrightarrow>
        object_name info =
          (case get (last (findall_descendants ''Object'' relop)) ''Table'' of
             Some t \<Rightarrow> t
           | None \<Rightarrow> (case get (last (findall_descendants ''Object'' relop)) ''Index'' of
                        Some i \<Rightarrow> i | None \<Rightarrow> [])) \<and>
        index_name info =
          (case get (last (findall_descendants ''Object'' relop)) ''Index'' of
             Some i \<Rightarrow> i | None \<Rightarrow> []))"
  by (rule names_of_last_object)

lemma no_object_found: "findall_descendants ''Object'' cost_57_relop = []"
  by code_simp

theorem object_name_of_last_reference_witness:
  "extract_operator_info ((init (float_of_int 10))\<lparr>total_cost := float_of_int 100\<rparr>)
     cost_57_relop = Inr cost_57_operator \<and>
   findall_descendants ''Object'' cost_57_relop = [] \<and>
   object_name cost_57_operator = [] \<and> index_name cost_57_operator = [] \<and>
   extract_operator_info (init (float_of_int 10)) two_objects_relop = Inr two_objects_operator \<and>
   findall_descendants ''Object'' two_objects_relop \<noteq> [] \<and>
   object_name two_objects_operator = ''[OrderLines]'' \<and>
   index_name two_objects_operator = ''[IX_OrderLines]'' \<and>
   get (last (findall_descendants ''Object'' two_objects_relop)) ''Table'' = Some ''[OrderLines]'' \<and>
   get (last (findall_descendants ''Object'' two_objects_relop)) ''Index'' = Some ''[IX_OrderLines]''"
  using object_name_of_last_reference
          [of "init (float_of_int 10)" two_objects_relop two_objects_operator]
        object_name_of_last_reference
          [of "(init (float_of_int 10))\<lparr>total_cost := float_of_int 100\<rparr>" cost_57_relop
              cost_57_operator]
        two_objects_record two_objects_found cost_57_record no_object_found
  by (simp add: two_objects_operator_def get_def node_def)

text \<open>
  The claim as stated fails on an operator with two object references: the names are
  those of the second reference, \<open>[OrderLines]\<close> and \<open>[IX_OrderLines]\<close>, while the first
  one is \<open>[Orders]\<close> with \<open>[PK_Orders]\<close>.
\<close>

theorem first_object_reference_counterexample:
  "map_sum id object_name (extract_operator_info (init (float_of_int 10)) two_objects_relop) =
     Inr ''[OrderLines]'' \<and>
   map_sum id index_name (extract_operator_info (init (float_of_int 10)) two_objects_relop) =
     Inr ''[IX_OrderLines]'' \<and>
   get (hd (findall_descendants ''Object'' two_objects_relop)) ''Table'' = Some ''[Orders]'' \<and>
   get (hd (findall_descendants ''Object'' two_objects_relop)) ''Index'' = Some ''[PK_Orders]''"
  using two_objects_record two_objects_found
  by (simp add: two_objects_operator_def get_def node_def)

subsection \<open>Numeric attributes that are present and empty\<close>

text \<open>
  C6.  An absent numeric attribute is read as zero, and an empty statement cost is
  skipped.  An empty \<open>EstimatedTotalSubtreeCost\<close>, \<open>EstimateRows\<close> or \<open>Impact\<close> is
  handed to \<open>float\<close>, which raises \<open>ValueError\<close> on the empty string; nothing catches
  it, so the analysis stops and the process ends with a traceback and no report.
\<close>

theorem empty_numeric_attribute_raises:
  "extract_operator_info (init (float_of_int 10))
     (node ''RelOp'' [(''EstimatedTotalSubtreeCost'', [])] []) = Inl ValueError \<and>
   extract_operator_info (init (float_of_int 10))
     (node ''RelOp'' [(''EstimateRows'', [])] []) = Inl ValueError \<and>
   float_attr (node ''MissingIndexGroup'' [(''Impact'', [])] []) ''Impact'' = Inl ValueError \<and>
   snd (analyze_plan (init (float_of_int 10)) empty_cost_plan) = Some ValueError \<and>
   result (main con ''plan.xml'' (float_of_int 10) (WellFormed empty_cost_plan)) = Raised ValueError \<and>
   exit_code (main con ''plan.xml'' (float_of_int 10) (WellFormed empty_cost_plan)) = 1 \<and>
   stdout (main con ''plan.xml'' (float_of_int 10) (WellFormed empty_cost_plan)) =
     [Line ([CHR 0x0A] @ ''Analyzing execution plan: plan.xml'')] \<and>
   stderr (main con ''plan.xml'' (float_of_int 10) (WellFormed empty_cost_plan)) = [ValueError]"
proof -
  have reads: "extract_operator_info (init (float_of_int 10))
     (node ''RelOp'' [(''EstimatedTotalSubtreeCost'', [])] []) = Inl ValueError \<and>
   extract_operator_info (init (float_of_int 10))
     (node ''RelOp'' [(''EstimateRows'', [])] []) = Inl ValueError \<and>
   float_attr (node ''MissingIndexGroup'' [(''Impact'', [])] []) ''Impact'' = Inl ValueError"
    by code_simp
  have plan: "analyze_plan (init (float_of_int 10)) empty_cost_plan =
      (init (float_of_int 10), Some ValueError)"
    by code_simp
  have banner: "encodes_text con (analyzing_message ''plan.xml'')"
    by (simp add: encodes_text_def encodable_def analyzing_message_def)
  have "main con ''plan.xml'' (float_of_int 10) (WellFormed empty_cost_plan) =
      \<lparr>stdout = [Line (analyzing_message ''plan.xml'')], stderr = [ValueError],
       analyzer_state = init (float_of_int 10), result = Raised ValueError\<rparr>"
    using plan banner
    by (simp add: main_def analyze_file_def print_line_def uncaught_def Let_def)
  then show ?thesis
    using reads plan by (simp add: exit_code_def analyzing_message_def)
qed

subsection \<open>How the process ends\<close>









subsection \<open>The column lists of a missing-index record\<close>

lemma column_groups_last:
  "column_groups idx =
     (last_group_columns ''EQUALITY'' idx, last_group_columns ''INEQUALITY'' idx,
      last_group_columns ''INCLUDE'' idx)"
proof -
  define f where "f = (\<lambda>(equality_cols :: string list, inequality_cols :: string list, included_cols :: string list) col_group.
              if get_or col_group ''Usage'' [] = ''EQUALITY''
              then (group_columns col_group, inequality_cols, included_cols)
              else if get_or col_group ''Usage'' [] = ''INEQUALITY''
              then (equality_cols, group_columns col_group, included_cols)
              else if get_or col_group ''Usage'' [] = ''INCLUDE''
              then (equality_cols, inequality_cols, group_columns col_group)
              else (equality_cols, inequality_cols, included_cols))"
  define pick where "pick = (\<lambda>usage gs.
     case rev (filter (\<lambda>g. get_or g ''Usage'' [] = usage) gs) of
        [] \<Rightarrow> []
      | g # earlier \<Rightarrow> group_columns g)"
  have "foldl f ([], [], []) gs = (pick ''EQUALITY'' gs, pick ''INEQUALITY'' gs, pick ''INCLUDE'' gs)" for gs
  proof (induction gs rule: rev_induct)
    case Nil
    then show ?case by (simp add: pick_def)
  next
    case (snoc g gs)
    then show ?case by (simp add: f_def pick_def)
  qed
  then show ?thesis
    unfolding column_groups_def last_group_columns_def f_def pick_def .
qed

lemma record_fields:
  "table_name (make_missing_index i idx) = strip_brackets (get_or idx ''Table'' [])"
  "equality_columns (make_missing_index i idx) = fst (column_groups idx)"
  "inequality_columns (make_missing_index i idx) = fst (snd (column_groups idx))"
  "included_columns (make_missing_index i idx) = snd (snd (column_groups idx))"
  "create_statement (make_missing_index i idx) =
     generate_create_index (strip_brackets (get_or idx ''Table'' [])) (fst (column_groups idx))
       (fst (snd (column_groups idx))) (snd (snd (column_groups idx)))"
  by (simp_all add: make_missing_index_def Let_def split: prod.splits)

lemma missing_index_groups_records:
  "\<exists>ms. fst (missing_index_groups s groups) = s\<lparr>missing_indexes := missing_indexes s @ ms\<rparr> \<and>
        (\<forall>r \<in> set ms. \<exists>i. \<exists>idx \<in> set (concat (map (findall_descendants ''MissingIndex'') groups)).
            r = make_missing_index i idx)"
proof (induction groups arbitrary: s)
  case Nil
  have "fst (missing_index_groups s []) = s\<lparr>missing_indexes := missing_indexes s @ []\<rparr>"
    by simp
  then show ?case by fastforce
next
  case (Cons g rest)
  show ?case
  proof (cases "float_attr g ''Impact''")
    case (Inl err)
    then have "fst (missing_index_groups s (g # rest)) = s\<lparr>missing_indexes := missing_indexes s @ []\<rparr>"
      by simp
    then show ?thesis by fastforce
  next
    case (Inr i)
    define here where "here = map (make_missing_index i) (findall_descendants ''MissingIndex'' g)"
    define s1 where "s1 = s\<lparr>missing_indexes := missing_indexes s @ here\<rparr>"
    have "missing_index_groups s (g # rest) = missing_index_groups s1 rest"
      using Inr by (simp add: missing_index_records_append s1_def here_def)
    moreover obtain ms where ms: "fst (missing_index_groups s1 rest) =
        s1\<lparr>missing_indexes := missing_indexes s1 @ ms\<rparr>"
      "\<forall>r \<in> set ms. \<exists>i. \<exists>idx \<in> set (concat (map (findall_descendants ''MissingIndex'') rest)).
            r = make_missing_index i idx"
      using Cons.IH by blast
    ultimately have "fst (missing_index_groups s (g # rest)) =
        s\<lparr>missing_indexes := missing_indexes s @ (here @ ms)\<rparr>"
      by (simp add: s1_def)
    moreover have "\<exists>j. \<exists>idx \<in> set (concat (map (findall_descendants ''MissingIndex'') (g # rest))).
            r = make_missing_index j idx" if "r \<in> set (here @ ms)" for r
    proof (cases "r \<in> set here")
      case True
      then obtain idx where "idx \<in> set (findall_descendants ''MissingIndex'' g)"
        "r = make_missing_index i idx"
        by (auto simp add: here_def)
      then show ?thesis by auto
    next
      case False
      then have "r \<in> set ms" using that by simp
      then obtain j idx where "idx \<in> set (concat (map (findall_descendants ''MissingIndex'') rest))"
        "r = make_missing_index j idx"
        using ms(2) by blast
      then show ?thesis by auto
    qed
    ultimately show ?thesis by blast
  qed
qed

lemma analyze_plan_records:
  assumes "r \<in> set (emitted_missing_indexes s (fst (analyze_plan s root)))"
  shows "\<exists>i. \<exists>idx \<in> set (suggestions root). r = make_missing_index i idx"
proof -
  define s1 where "s1 = fst (extract_total_cost s root)"
  define s2 where "s2 = fst (analyze_operators s1 root)"
  define s3 where "s3 = fst (extract_missing_indexes s2 root)"
  define s4 where "s4 = extract_warnings s3 root"
  obtain c where "s1 = s\<lparr>total_cost := c\<rparr>"
    using extract_total_cost_frame unfolding s1_def by blast
  then have 1: "missing_indexes s1 = missing_indexes s" by simp
  obtain es ws where "s2 = s1\<lparr>expensive_operators := expensive_operators s1 @ es,
      warnings := warnings s1 @ ws\<rparr>"
    using analyze_relops_appends unfolding s2_def analyze_operators_def by blast
  then have 2: "missing_indexes s2 = missing_indexes s" using 1 by simp
  obtain ms where ms: "s3 = s2\<lparr>missing_indexes := missing_indexes s2 @ ms\<rparr>"
    "\<forall>r \<in> set ms. \<exists>i. \<exists>idx \<in> set (suggestions root). r = make_missing_index i idx"
    using missing_index_groups_records
    unfolding s3_def extract_missing_indexes_def suggestions_def by blast
  have 3: "missing_indexes s3 = missing_indexes s @ ms" using ms(1) 2 by simp
  obtain ws' where "s4 = s3\<lparr>warnings := warnings s3 @ ws'\<rparr>"
    using extract_warnings_appends unfolding s4_def by blast
  then have 4: "missing_indexes s4 = missing_indexes s @ ms" using 3 by simp
  have "fst (analyze_plan s root) = s1 \<or> fst (analyze_plan s root) = s2 \<or>
        fst (analyze_plan s root) = s3 \<or> fst (analyze_plan s root) = s4"
    by (auto simp add: analyze_plan_def s1_def s2_def s3_def s4_def split: prod.splits option.splits)
  then have "emitted_missing_indexes s (fst (analyze_plan s root)) = [] \<or>
             emitted_missing_indexes s (fst (analyze_plan s root)) = ms"
    using 1 2 3 4 by (auto simp add: emitted_missing_indexes_def)
  then show ?thesis using assms ms(2) by auto
qed

lemma repeated_column_analysis:
  "missing_indexes (fst (analyze_plan (init (float_of_int 10)) repeated_column_plan)) =
     [repeated_column_record]"
  by code_simp

text \<open>
  C8, as the code has it.  Every \<open>MissingIndex\<close> record that the analysis adds comes from
  a \<open>MissingIndex\<close> element of the document, and each of its three column lists is
  copied from that element: it holds the column names of the last column group with the
  usage \<open>EQUALITY\<close>, \<open>INEQUALITY\<close> or \<open>INCLUDE\<close>, and is empty without such a group.
  Nothing removes a name that the document gives in two groups, so the three lists of a
  record are disjoint exactly when those groups of the document are.
\<close>

theorem missing_index_columns_from_document:
  assumes "r \<in> set (emitted_missing_indexes s (fst (analyze_plan s root)))"
  shows "\<exists>idx \<in> set (suggestions root).
           equality_columns r = last_group_columns ''EQUALITY'' idx \<and>
           inequality_columns r = last_group_columns ''INEQUALITY'' idx \<and>
           included_columns r = last_group_columns ''INCLUDE'' idx \<and>
           ((set (equality_columns r) \<inter> set (inequality_columns r) = {} \<and>
             set (equality_columns r) \<inter> set (included_columns r) = {} \<and>
             set (inequality_columns r) \<inter> set (included_columns r) = {}) =
            (set (last_group_columns ''EQUALITY'' idx) \<inter>
               set (last_group_columns ''INEQUALITY'' idx) = {} \<and>
             set (last_group_columns ''EQUALITY'' idx) \<inter>
               set (last_group_columns ''INCLUDE'' idx) = {} \<and>
             set (last_group_columns ''INEQUALITY'' idx) \<inter>
               set (last_group_columns ''INCLUDE'' idx) = {}))"
proof -
  obtain i idx where idx: "idx \<in> set (suggestions root)" "r = make_missing_index i idx"
    using analyze_plan_records [OF assms] by blast
  have "equality_columns r = last_group_columns ''EQUALITY'' idx"
       "inequality_columns r = last_group_columns ''INEQUALITY'' idx"
       "included_columns r = last_group_columns ''INCLUDE'' idx"
    using idx(2) by (simp_all add: record_fields column_groups_last)
  then show ?thesis using idx(1) by auto
qed

theorem missing_index_columns_from_document_witness:
  "repeated_column_record \<in>
     set (emitted_missing_indexes (init (float_of_int 10))
            (fst (analyze_plan (init (float_of_int 10)) repeated_column_plan))) \<and>
   (\<exists>idx \<in> set (suggestions repeated_column_plan).
      equality_columns repeated_column_record = last_group_columns ''EQUALITY'' idx \<and>
      inequality_columns repeated_column_record = last_group_columns ''INEQUALITY'' idx \<and>
      included_columns repeated_column_record = last_group_columns ''INCLUDE'' idx)"
proof -
  have member: "repeated_column_record \<in>
     set (emitted_missing_indexes (init (float_of_int 10))
            (fst (analyze_plan (init (float_of_int 10)) repeated_column_plan)))"
    unfolding emitted_missing_indexes_def repeated_column_analysis by (simp add: init_def)
  show ?thesis
    using member missing_index_columns_from_document [OF member] by blast
qed

text \<open>
  The claim as stated fails on a suggestion whose document names \<open>CustomerId\<close> as
  equality column and as included column: the record has it in both lists.
\<close>

theorem repeated_column_counterexample:
  "map equality_columns
     (missing_indexes (fst (analyze_plan (init (float_of_int 10)) repeated_column_plan))) =
     [[''CustomerId'']] \<and>
   map included_columns
     (missing_indexes (fst (analyze_plan (init (float_of_int 10)) repeated_column_plan))) =
     [[''CustomerId'']]"
  by (simp add: repeated_column_analysis repeated_column_record_def)

subsection \<open>The name of the suggested index\<close>

lemma split_on_nonempty: "split_on sep s \<noteq> []"
  by (induction s) simp_all

lemma split_on_no_separator: "sep \<notin> set s \<Longrightarrow> split_on sep s = [s]"
  by (induction s) auto

lemma split_on_separator: "sep \<in> set s \<Longrightarrow> 2 \<le> length (split_on sep s)"
proof (induction s)
  case Nil
  then show ?case by simp
next
  case (Cons c cs)
  have "length (split_on sep cs) \<ge> 1"
    using split_on_nonempty [of sep cs] by (cases "split_on sep cs") simp_all
  then show ?case using Cons
    by (cases "split_on sep cs") (auto simp add: split_on_nonempty)
qed

lemma take_while_all:
  "sep \<notin> set cs \<Longrightarrow>
   takeWhile (\<lambda>c. c \<noteq> sep) (rev cs @ ys) = rev cs @ takeWhile (\<lambda>c. c \<noteq> sep) ys"
  by (rule takeWhile_append2) auto

lemma last_split_on:
  "last (split_on sep s) = rev (takeWhile (\<lambda>c. c \<noteq> sep) (rev s))"
proof (induction s)
  case Nil
  then show ?case by simp
next
  case (Cons c cs)
  show ?case
  proof (cases "sep \<in> set cs")
    case True
    then have "2 \<le> length (split_on sep cs)" by (rule split_on_separator)
    then have "tl (split_on sep cs) \<noteq> []"
      by (cases "split_on sep cs") auto
    then have "last (split_on sep (c # cs)) = last (split_on sep cs)"
      using split_on_nonempty [of sep cs]
      by (cases "split_on sep cs") (auto)
    moreover have "takeWhile (\<lambda>c. c \<noteq> sep) (rev cs @ [c]) = takeWhile (\<lambda>c. c \<noteq> sep) (rev cs)"
      using True takeWhile_append1 [of sep "rev cs" "\<lambda>c. c \<noteq> sep" "[c]"] by simp
    ultimately show ?thesis using Cons by simp
  next
    case False
    then have ps: "split_on sep cs = [cs]" by (rule split_on_no_separator)
    have "takeWhile (\<lambda>c. c \<noteq> sep) (rev cs @ [c]) = rev cs @ takeWhile (\<lambda>c. c \<noteq> sep) [c]"
      using False by (rule take_while_all)
    then show ?thesis using ps by simp
  qed
qed

lemma bare_table_name_after_last_dot: "bare_table_name table = after_last_dot table"
proof (cases "CHR ''.'' \<in> set table")
  case True
  then have "2 \<le> length (split_on (CHR ''.'') table)" by (rule split_on_separator)
  then show ?thesis
    by (simp add: bare_table_name_def after_last_dot_def last_split_on Let_def)
next
  case False
  then have parts: "split_on (CHR ''.'') table = [table]" by (rule split_on_no_separator)
  have whole: "takeWhile (\<lambda>c. c \<noteq> CHR ''.'') (rev table) = rev table"
    using take_while_all [OF False, of "[]"] by simp
  show ?thesis
    unfolding bare_table_name_def after_last_dot_def parts whole by simp
qed

lemma replace_both_brackets:
  "replace_char (CHR '']'') (replace_char (CHR ''['') s) = without_brackets s"
  by (induction s) (simp_all add: replace_char_def without_brackets_def)

lemma generate_index_name_spec:
  "generate_index_name table equality = spec_index_name table equality"
  by (simp add: generate_index_name_def spec_index_name_def spec_index_name_uncut_def
      bare_table_name_after_last_dot replace_both_brackets Let_def)

lemma create_statement_begins:
  "\<exists>rest. generate_create_index table equality inequality included =
     ''CREATE NONCLUSTERED INDEX '' @ generate_index_name table equality @ [CHR 0x0A] @ rest"
  by (simp add: generate_create_index_def Let_def)

lemma long_index_name:
  "60 < length (spec_index_name_uncut ''Sales.CustomerOrderHistory''
                  [''CustomerIdentifier'', ''OrderPlacementDate'', ''ShippingRegionCode'']) \<and>
   spec_index_name ''Sales.CustomerOrderHistory''
     [''CustomerIdentifier'', ''OrderPlacementDate'', ''ShippingRegionCode''] =
     ''IX_CustomerOrderHistory_CustomerIdentifier_OrderPlacementDat''"
  by code_simp

text \<open>
  C9.  The index name that \<open>_generate_create_index\<close> synthesizes is the name of the
  specification: \<open>IX_\<close>, the bare table name, an underscore and the first up to three
  equality columns joined by underscores, with the square brackets removed, cut after 60
  characters.  It is never longer than 60 characters, it has exactly 60 when the uncut
  name is longer, and the statement of every record starts with the index creation under
  this name.
\<close>

theorem index_name_synthesis:
  "generate_index_name table equality = spec_index_name table equality \<and>
   length (generate_index_name table equality) \<le> 60 \<and>
   (60 < length (spec_index_name_uncut table equality) \<longrightarrow>
      length (generate_index_name table equality) = 60) \<and>
   (\<exists>rest. create_statement (make_missing_index i idx) =
      ''CREATE NONCLUSTERED INDEX '' @
      spec_index_name (table_name (make_missing_index i idx))
        (equality_columns (make_missing_index i idx)) @ [CHR 0x0A] @ rest)"
proof (intro conjI impI)
  show "generate_index_name table equality = spec_index_name table equality"
    by (rule generate_index_name_spec)
  show "length (generate_index_name table equality) \<le> 60"
    by (simp add: generate_index_name_spec spec_index_name_def)
  show "length (generate_index_name table equality) = 60"
    if "60 < length (spec_index_name_uncut table equality)"
    using that by (simp add: generate_index_name_spec spec_index_name_def)
  show "\<exists>rest. create_statement (make_missing_index i idx) =
      ''CREATE NONCLUSTERED INDEX '' @
      spec_index_name (table_name (make_missing_index i idx))
        (equality_columns (make_missing_index i idx)) @ [CHR 0x0A] @ rest"
    using create_statement_begins
            [of "strip_brackets (get_or idx ''Table'' [])" "fst (column_groups idx)"
                "fst (snd (column_groups idx))" "snd (snd (column_groups idx))"]
    by (simp add: record_fields generate_index_name_spec)
qed

theorem index_name_synthesis_witness:
  "60 < length (spec_index_name_uncut ''Sales.CustomerOrderHistory''
                  [''CustomerIdentifier'', ''OrderPlacementDate'', ''ShippingRegionCode'']) \<and>
   length (generate_index_name ''Sales.CustomerOrderHistory''
             [''CustomerIdentifier'', ''OrderPlacementDate'', ''ShippingRegionCode'']) = 60 \<and>
   generate_index_name ''Sales.CustomerOrderHistory''
     [''CustomerIdentifier'', ''OrderPlacementDate'', ''ShippingRegionCode''] =
     ''IX_CustomerOrderHistory_CustomerIdentifier_OrderPlacementDat''"
  using index_name_synthesis
          [of "''Sales.CustomerOrderHistory''"
              "[''CustomerIdentifier'', ''OrderPlacementDate'', ''ShippingRegionCode'']"]
        long_index_name
  by simp

end
